theory Spec2Isabelle
  imports Complex_Main
begin

section \<open>Errors and array primitives\<close>

text \<open>
  The program is Python on top of numpy and hyperspy. Floating point numbers are read as
  real numbers (exact arithmetic), a NaN as \<open>None\<close> of an option type where the source
  can produce one, and an exception as the left summand of a result.
\<close>

datatype error = ValueError | TypeError | IndexError | ZeroDivisionError | AttributeError

text \<open>Running a fallible function over a list stops at the first failure.\<close>

fun map_result :: "('a \<Rightarrow> error + 'b) \<Rightarrow> 'a list \<Rightarrow> error + 'b list" where
  "map_result f [] = Inr []"
| "map_result f (x # xs) =
     (case f x of
        Inl e \<Rightarrow> Inl e
      | Inr y \<Rightarrow> (case map_result f xs of Inl e \<Rightarrow> Inl e | Inr ys \<Rightarrow> Inr (y # ys)))"

text \<open>\<open>arr.ravel()\<close> of a two-dimensional array, row-major.\<close>

definition ravel :: "'a list list \<Rightarrow> 'a list" where
  "ravel arr = concat arr"

text \<open>
  \<open>np.unique(a, return_inverse=True, return_counts=True)\<close>: the sorted distinct values
  of the flattened array, for each element the index of its value among them, and how
  often each value occurs.
\<close>

definition np_unique :: "real list \<Rightarrow> real list" where
  "np_unique xs = sort (remdups xs)"

definition index_of :: "real list \<Rightarrow> real \<Rightarrow> nat" where
  "index_of us x = length (takeWhile (\<lambda>u. u \<noteq> x) us)"

definition unique_inverse :: "real list \<Rightarrow> nat list" where
  "unique_inverse xs = map (index_of (np_unique xs)) xs"

definition unique_counts :: "real list \<Rightarrow> nat list" where
  "unique_counts xs = map (count_list xs) (np_unique xs)"

text \<open>
  \<open>np.bincount(ix, weights=w)\<close>: entry \<open>j\<close> sums the weights at the positions where
  \<open>ix\<close> is \<open>j\<close>; the result has \<open>max(ix) + 1\<close> entries (none for an empty \<open>ix\<close>),
  and numpy raises ValueError when the weights have another length than \<open>ix\<close>.
\<close>

definition bincount_len :: "nat list \<Rightarrow> nat" where
  "bincount_len ix = (if ix = [] then 0 else Suc (fold max ix 0))"

definition np_bincount :: "nat list \<Rightarrow> 'a::comm_monoid_add list \<Rightarrow> error + 'a list" where
  "np_bincount ix w =
     (if length w \<noteq> length ix then Inl ValueError
      else Inr (map (\<lambda>j. sum_list (map snd (filter (\<lambda>p. fst p = j) (zip ix w))))
                    [0..<bincount_len ix]))"

section \<open>Binarized counting integrals\<close>

text \<open>
  \<open>integrate_binary_real(sdata, bin_mask, normalize)\<close> and
  \<open>integrate_binary_comp(sdata, bin_mask, normalize)\<close>. The mask is the data of a
  two-dimensional signal; the quotient \<open>idata / cts\<close> is elementwise, and every count is
  at least one.
\<close>

definition integrate_binary_real :: "real list list \<Rightarrow> real list list \<Rightarrow> bool \<Rightarrow> error + real list" where
  "integrate_binary_real sdata bin_mask normalise =
     (let ix = unique_inverse (ravel bin_mask);
          cts = unique_counts (ravel bin_mask)
      in case np_bincount ix (ravel sdata) of
           Inl e \<Rightarrow> Inl e
         | Inr idata \<Rightarrow>
             if normalise then Inr (map2 (\<lambda>v c. v / real c) idata cts) else Inr idata)"

definition integrate_binary_comp :: "complex list list \<Rightarrow> real list list \<Rightarrow> bool \<Rightarrow> error + complex list" where
  "integrate_binary_comp sdata bin_mask normalise =
     (let ix = unique_inverse (ravel bin_mask);
          cts = unique_counts (ravel bin_mask)
      in case np_bincount ix (ravel (map (map Re) sdata)) of
           Inl e \<Rightarrow> Inl e
         | Inr re_sum \<Rightarrow>
             (case np_bincount ix (ravel (map (map Im) sdata)) of
                Inl e \<Rightarrow> Inl e
              | Inr im_sum \<Rightarrow>
                  (let idata = map2 (\<lambda>a b. complex_of_real a + \<i> * complex_of_real b) re_sum im_sum
                   in if normalise then Inr (map2 (\<lambda>v c. v / of_nat c) idata cts) else Inr idata)))"

section \<open>Images: data, axes and metadata\<close>

text \<open>
  A hyperspy axis with its \<open>scale\<close>, \<open>offset\<close> and \<open>size\<close>; its \<open>axis\<close> attribute is the
  vector \<open>offset + scale * index\<close>.
\<close>

record data_axis =
  scale :: real
  offset :: real
  axsize :: nat

definition axis_values :: "data_axis \<Rightarrow> real list" where
  "axis_values ax = map (\<lambda>i. offset ax + scale ax * real i) [0..<axsize ax]"

text \<open>
  The metadata items the program reads and writes: \<open>Signal.pad_width\<close> and the four
  \<open>ModImage\<close> parameters. \<open>None\<close> is an absent item.
\<close>

record metadata =
  pad_width :: "int list list option"
  wave_length :: "real option"
  refractive_index :: "real option"
  numerical_aperture :: "real option"
  f_smooth_aperture :: "real option"

text \<open>
  The array of an image is real or complex (\<open>np.iscomplexobj\<close>). It is kept as the list
  of its two-dimensional signal planes, one per navigation index (a single plane when
  there is no navigation axis), each plane a list of rows: the y axis runs over the rows
  and the x axis over the columns, and \<open>signal_axes\<close> is \<open>(x, y)\<close>.
\<close>

datatype pixels = RealPixels "real list list list" | ComplexPixels "complex list list list"

record image =
  data :: pixels
  axis_x :: data_axis
  axis_y :: data_axis
  navigation_axes :: "data_axis list"
  metadata :: metadata

section \<open>Coordinate engine\<close>

text \<open>\<open>a.max()\<close> and \<open>a.min()\<close> raise ValueError on an empty array.\<close>

definition np_max :: "real list \<Rightarrow> error + real" where
  "np_max xs = (case xs of [] \<Rightarrow> Inl ValueError | x # rest \<Rightarrow> Inr (fold max rest x))"

definition np_min :: "real list \<Rightarrow> error + real" where
  "np_min xs = (case xs of [] \<Rightarrow> Inl ValueError | x # rest \<Rightarrow> Inr (fold min rest x))"

text \<open>
  A shift given as a Python \<open>int\<close> is in pixels, any other number is in scaled units.
\<close>

datatype shift = IntShift int | FloatShift real

definition shift_amount :: "shift \<Rightarrow> real \<Rightarrow> real" where
  "shift_amount sh sc = (case sh of IntShift n \<Rightarrow> real_of_int n * sc | FloatShift v \<Rightarrow> v)"

text \<open>
  One round of the loop \<open>for io in range(2)\<close> under \<open>if shifted\<close>:
  \<open>ax_shift = coords[io] - offsets[io]; coords[io] -= 0.5 * ax_shift.max()\<close>.
\<close>

definition centre_coords :: "real list \<Rightarrow> real \<Rightarrow> error + real list" where
  "centre_coords cs off =
     (case np_max (map (\<lambda>c. c - off) cs) of
        Inl e \<Rightarrow> Inl e
      | Inr m \<Rightarrow> Inr (map (\<lambda>c. c - 0.5 * m) cs))"

text \<open>
  \<open>get_real_space(self, shifted=True, shifts=None)\<close>. The statement
  \<open>raise "The number of shift values should be 2"\<close> raises a string, which is no
  exception: Python answers with a TypeError.
\<close>

definition get_real_space :: "image \<Rightarrow> bool \<Rightarrow> shift list option \<Rightarrow> error + (real list \<times> real list)" where
  "get_real_space img shifted shifts =
     (let sx = scale (axis_x img); sy = scale (axis_y img);
          cx = axis_values (axis_x img); cy = axis_values (axis_y img);
          centred =
            (if shifted then
               (case centre_coords cx (offset (axis_x img)) of
                  Inl e \<Rightarrow> Inl e
                | Inr cx' \<Rightarrow>
                    (case centre_coords cy (offset (axis_y img)) of
                       Inl e \<Rightarrow> Inl e
                     | Inr cy' \<Rightarrow> Inr (cx', cy')))
             else Inr (cx, cy))
      in case centred of
           Inl e \<Rightarrow> Inl e
         | Inr (cx', cy') \<Rightarrow>
             (case shifts of
                None \<Rightarrow> Inr (cx', cy')
              | Some shs \<Rightarrow>
                  if length shs \<noteq> 2 then Inl TypeError
                  else Inr (map (\<lambda>c. c - shift_amount (shs ! 0) sx) cx',
                            map (\<lambda>c. c - shift_amount (shs ! 1) sy) cy')))"

section \<open>Binning engine: digitized meshes\<close>

text \<open>
  \<open>np.arange(start, stop, step)\<close> on floats has \<open>ceil((stop - start) / step)\<close> entries
  \<open>start + i * step\<close> (none when that number is not positive); with a zero step numpy
  cannot compute the length and raises ValueError.
\<close>

definition np_arange :: "real \<Rightarrow> real \<Rightarrow> real \<Rightarrow> error + real list" where
  "np_arange start stop step =
     (if step = 0 then Inl ValueError
      else Inr (map (\<lambda>i. start + real i * step) [0..<nat \<lceil>(stop - start) / step\<rceil>]))"

text \<open>
  \<open>np.digitize(x, bins)\<close> (with \<open>right=False\<close>): for increasing bins the index \<open>i\<close> with
  \<open>bins[i-1] <= x < bins[i]\<close>, that is the number of edges not above \<open>x\<close>; for
  decreasing bins the number of edges above \<open>x\<close>; ValueError when the bins are neither.
\<close>

definition np_digitize :: "real \<Rightarrow> real list \<Rightarrow> error + nat" where
  "np_digitize x bins =
     (if sorted bins then Inr (length (filter (\<lambda>b. b \<le> x) bins))
      else if sorted (rev bins) then Inr (length (filter (\<lambda>b. x < b) bins))
      else Inl ValueError)"

text \<open>\<open>bins[i]\<close> raises IndexError out of range.\<close>

definition take_bin :: "real list \<Rightarrow> nat \<Rightarrow> error + real" where
  "take_bin bins i = (if i < length bins then Inr (bins ! i) else Inl IndexError)"

text \<open>
  The last lines shared by both digitizations, with \<open>mesh\<close> the radius or the angle and
  \<open>bin_size\<close> already a number:
  \<open>bins = np.arange(mesh.min(), mesh.max() + 1.1 * bin_size, bin_size)\<close> and
  \<open>ret.data = bins[np.digitize(mesh, bins)]\<close>.
\<close>

definition mesh_bins :: "real list list \<Rightarrow> real \<Rightarrow> error + real list" where
  "mesh_bins mesh bin_size =
     (case np_min (ravel mesh) of
        Inl e \<Rightarrow> Inl e
      | Inr lo \<Rightarrow>
          (case np_max (ravel mesh) of
             Inl e \<Rightarrow> Inl e
           | Inr hi \<Rightarrow> np_arange lo (hi + 1.1 * bin_size) bin_size))"

definition bin_label :: "real list \<Rightarrow> real \<Rightarrow> error + real" where
  "bin_label bins x = (case np_digitize x bins of Inl e \<Rightarrow> Inl e | Inr i \<Rightarrow> take_bin bins i)"

definition digitize_mesh :: "real list list \<Rightarrow> real \<Rightarrow> error + real list list" where
  "digitize_mesh mesh bin_size =
     (case mesh_bins mesh bin_size of
        Inl e \<Rightarrow> Inl e
      | Inr bins \<Rightarrow> map_result (map_result (bin_label bins)) mesh)"

text \<open>
  The \<open>bin_size\<close> argument: \<open>None\<close>, a Python \<open>int\<close> (a number of regions) or a float (a
  width in scaled units).
\<close>

datatype bin_size = DefaultBin | IntBin int | FloatBin real

definition radius_mesh :: "real list \<Rightarrow> real list \<Rightarrow> real list list" where
  "radius_mesh xx yy = map (\<lambda>y. map (\<lambda>x. sqrt (x ^ 2 + y ^ 2)) xx) yy"

text \<open>
  The width the radial digitization works with. For an \<open>int\<close> it is
  \<open>radius.max() / bin_size\<close>, a numpy quotient: by zero it is \<open>inf\<close> or \<open>nan\<close>, of which
  \<open>np.arange\<close> cannot compute a length (ValueError).
\<close>

definition radius_bin_size :: "image \<Rightarrow> real list list \<Rightarrow> bin_size \<Rightarrow> error + real" where
  "radius_bin_size img radius bs =
     (case bs of
        DefaultBin \<Rightarrow> Inr (sqrt ((scale (axis_x img)) ^ 2 + (scale (axis_y img)) ^ 2))
      | IntBin n \<Rightarrow>
          (case np_max (ravel radius) of
             Inl e \<Rightarrow> Inl e
           | Inr hi \<Rightarrow> if n = 0 then Inl ValueError else Inr (hi / real_of_int n))
      | FloatBin b \<Rightarrow> Inr b)"

definition get_digitized_radius :: "image \<Rightarrow> bin_size \<Rightarrow> bool \<Rightarrow> shift list option \<Rightarrow> error + real list list" where
  "get_digitized_radius img bs shifted shifts =
     (case get_real_space img shifted shifts of
        Inl e \<Rightarrow> Inl e
      | Inr (xx, yy) \<Rightarrow>
          (let radius = radius_mesh xx yy
           in case radius_bin_size img radius bs of
                Inl e \<Rightarrow> Inl e
              | Inr b \<Rightarrow> digitize_mesh radius b))"

text \<open>\<open>np.angle(x + 1j * y)\<close> is \<open>arctan2(y, x)\<close>, in \<open>(-pi, pi]\<close>.\<close>

definition np_arctan2 :: "real \<Rightarrow> real \<Rightarrow> real" where
  "np_arctan2 y x =
     (if 0 < x then arctan (y / x)
      else if x < 0 then (if 0 \<le> y then arctan (y / x) + pi else arctan (y / x) - pi)
      else if 0 < y then pi / 2
      else if y < 0 then - (pi / 2)
      else 0)"

definition angle_mesh :: "real list \<Rightarrow> real list \<Rightarrow> real list list" where
  "angle_mesh xx yy = map (\<lambda>y. map (\<lambda>x. np_arctan2 y x) xx) yy"

text \<open>
  The width the angular digitization works with. For an \<open>int\<close> it is \<open>2.*np.pi / bin_size\<close>,
  a quotient of Python numbers: by zero it raises ZeroDivisionError.
\<close>

definition angle_bin_size :: "image \<Rightarrow> bin_size \<Rightarrow> error + real" where
  "angle_bin_size img bs =
     (case bs of
        DefaultBin \<Rightarrow> Inr (sqrt ((scale (axis_x img)) ^ 2 + (scale (axis_y img)) ^ 2))
      | IntBin n \<Rightarrow> if n = 0 then Inl ZeroDivisionError else Inr (2 * pi / real_of_int n)
      | FloatBin b \<Rightarrow> Inr b)"

definition get_digitized_angle :: "image \<Rightarrow> bin_size \<Rightarrow> bool \<Rightarrow> shift list option \<Rightarrow> error + real list list" where
  "get_digitized_angle img bs shifted shifts =
     (case get_real_space img shifted shifts of
        Inl e \<Rightarrow> Inl e
      | Inr (xx, yy) \<Rightarrow>
          (let angle = angle_mesh xx yy
           in case angle_bin_size img bs of
                Inl e \<Rightarrow> Inl e
              | Inr b \<Rightarrow> digitize_mesh angle b))"

section \<open>Binning engine: integration over a mask\<close>

text \<open>
  \<open>np.round(x, 5)\<close> rounds to five decimals, a tie to the even neighbour;
  \<open>np.diff\<close> gives the differences of neighbours.
\<close>

definition np_round5 :: "real \<Rightarrow> real" where
  "np_round5 x =
     (let y = x * 100000; f = \<lfloor>y\<rfloor>; d = y - of_int f
      in of_int (if d < 1 / 2 then f else if 1 / 2 < d then f + 1
                 else if even f then f else f + 1) / 100000)"

definition np_diff :: "real list \<Rightarrow> real list" where
  "np_diff xs = map2 (\<lambda>b a. b - a) (tl xs) xs"

text \<open>
  The result of \<open>integrate_binary\<close>: the integrals, one row per navigation index, and the
  signal axis of the new \<open>Signal1D\<close> (its \<open>axis\<close> vector, \<open>offset\<close> and \<open>scale\<close>, the last
  two \<open>0\<close> and \<open>1\<close> unless the mask bins are regular).
\<close>

datatype integrals = RealIntegrals "real list list" | ComplexIntegrals "complex list list"

record integral_signal =
  integral :: integrals
  bins_axis :: "real list"
  bins_offset :: real
  bins_scale :: real

text \<open>
  \<open>integrate_binary(self, bin_mask, normalize=True)\<close>, for a mask without navigation
  axes (what the digitizations return): \<open>self.map\<close> runs the integrator over the planes.
\<close>

definition integrate_binary :: "image \<Rightarrow> real list list \<Rightarrow> bool \<Rightarrow> error + integral_signal" where
  "integrate_binary img bin_mask normalise =
     (case (case data img of
              ComplexPixels planes \<Rightarrow>
                (case map_result (\<lambda>sdata. integrate_binary_comp sdata bin_mask normalise) planes of
                   Inl e \<Rightarrow> Inl e
                 | Inr rows \<Rightarrow> Inr (ComplexIntegrals rows))
            | RealPixels planes \<Rightarrow>
                (case map_result (\<lambda>sdata. integrate_binary_real sdata bin_mask normalise) planes of
                   Inl e \<Rightarrow> Inl e
                 | Inr rows \<Rightarrow> Inr (RealIntegrals rows))) of
        Inl e \<Rightarrow> Inl e
      | Inr idata \<Rightarrow>
          (let dst = np_unique (ravel bin_mask);
               nbins = length (np_unique (map np_round5 (np_diff dst)))
           in Inr \<lparr> integral = idata, bins_axis = dst,
                    bins_offset = (if nbins = 1 then dst ! 0 else 0),
                    bins_scale = (if nbins = 1 then dst ! 1 - dst ! 0 else 1) \<rparr>))"

definition integrate_radial :: "image \<Rightarrow> bin_size \<Rightarrow> bool \<Rightarrow> shift list option \<Rightarrow> bool \<Rightarrow> error + integral_signal" where
  "integrate_radial img bs shifted shifts normalise =
     (case get_digitized_radius img bs shifted shifts of
        Inl e \<Rightarrow> Inl e
      | Inr radius \<Rightarrow> integrate_binary img radius normalise)"

definition integrate_angular :: "image \<Rightarrow> bin_size \<Rightarrow> bool \<Rightarrow> shift list option \<Rightarrow> bool \<Rightarrow> error + integral_signal" where
  "integrate_angular img bs shifted shifts normalise =
     (case get_digitized_angle img bs shifted shifts of
        Inl e \<Rightarrow> Inl e
      | Inr angle \<Rightarrow> integrate_binary img angle normalise)"

section \<open>Fourier space and the contrast transfer function\<close>

text \<open>\<open>np.fft.ifftshift\<close> rolls a vector of length \<open>n\<close> to the left by \<open>n // 2\<close>.\<close>

definition np_ifftshift :: "'a list \<Rightarrow> 'a list" where
  "np_ifftshift xs = drop (length xs div 2) xs @ take (length xs div 2) xs"

definition k_vector :: "real \<Rightarrow> nat \<Rightarrow> real list" where
  "k_vector dk n = np_ifftshift (map (\<lambda>i. dk * (- real (n div 2) + real i)) [0..<n])"

datatype fourier_space =
  Square "real list list"
| Vectors "real list" "real list"
| Both "real list list" "real list" "real list"

text \<open>
  \<open>get_fourier_space(self, retstr)\<close>. The quotients \<open>2.*np.pi / (Ny*dy)\<close> and
  \<open>2.*np.pi / (Nx*dx)\<close> are of Python numbers and raise ZeroDivisionError by zero. The
  tests \<open>retstr is 'vectors'\<close> and the like are read as equality of strings.
\<close>

definition get_fourier_space :: "image \<Rightarrow> string \<Rightarrow> error + fourier_space" where
  "get_fourier_space img retstr =
     (let Nx = axsize (axis_x img); Ny = axsize (axis_y img);
          dx = scale (axis_x img); dy = scale (axis_y img)
      in if real Ny * dy = 0 \<or> real Nx * dx = 0 then Inl ZeroDivisionError
         else
           (let dky = 2 * pi / (real Ny * dy);
                dkx = 2 * pi / (real Nx * dx);
                ky = k_vector dky Ny;
                kx = k_vector dkx Nx
            in if retstr = ''vectors'' then Inr (Vectors kx ky)
               else
                 (let k2 = map (\<lambda>y. map (\<lambda>x. x ^ 2 + y ^ 2) kx) ky
                  in if retstr = ''square'' then Inr (Square k2)
                     else if retstr = ''both'' then Inr (Both k2 kx ky)
                     else Inl ValueError)))"

text \<open>
  \<open>np.sqrt\<close> of a negative number is NaN (a warning, no exception), and arithmetic with a
  NaN gives a NaN; \<open>np.nan_to_num\<close> replaces a NaN by zero.
\<close>

definition np_sqrt :: "real \<Rightarrow> real option" where
  "np_sqrt x = (if x < 0 then None else Some (sqrt x))"

definition nan_to_num :: "complex option \<Rightarrow> complex" where
  "nan_to_num z = (case z of None \<Rightarrow> 0 | Some v \<Rightarrow> v)"

text \<open>The aberration function at one frequency, without and with an astigmatism angle.\<close>

definition chi_plain :: "real \<Rightarrow> real \<Rightarrow> real option" where
  "chi_plain wnum k2 = (case np_sqrt (wnum ^ 2 - k2) of None \<Rightarrow> None | Some r \<Rightarrow> Some (r - wnum))"

definition chi_astigmatic :: "real \<Rightarrow> real \<Rightarrow> real \<Rightarrow> real \<Rightarrow> real \<Rightarrow> real option" where
  "chi_astigmatic wnum ang kx ky k2 =
     (let ka = kx * cos ang + ky * sin ang; ka2 = ka * ka
      in case np_sqrt (wnum ^ 2 - ka2) of
           None \<Rightarrow> None
         | Some ra \<Rightarrow>
             (case np_sqrt (wnum ^ 2 - k2) of
                None \<Rightarrow> None
              | Some r \<Rightarrow> Some (ra - 0.5 * (r + wnum))))"

text \<open>The hard aperture, and the cosine bell on the shell beyond it when \<open>fsmooth\<close> is set.\<close>

definition aperture_value :: "real \<Rightarrow> real option \<Rightarrow> real \<Rightarrow> real" where
  "aperture_value k2Aperture fsmooth k2 =
     (case fsmooth of
        None \<Rightarrow> (if k2 \<le> k2Aperture then 1 else 0)
      | Some f \<Rightarrow>
          if k2Aperture < k2 \<and> k2 < (1 + f) * k2Aperture
          then 0.5 * (1 + cos (pi * (k2 - k2Aperture) / (f * k2Aperture)))
          else (if k2 \<le> k2Aperture then 1 else 0))"

text \<open>
  One entry of \<open>np.nan_to_num(np.exp(1j * Chi * defocus) * aperture)\<close>: the exponential
  and the product are taken first, the NaN is replaced last.
\<close>

definition ctf_value :: "real option \<Rightarrow> real \<Rightarrow> real \<Rightarrow> complex" where
  "ctf_value chi defocus ap =
     nan_to_num (case chi of
                   None \<Rightarrow> None
                 | Some c \<Rightarrow> Some (exp (\<i> * complex_of_real c * complex_of_real defocus) * complex_of_real ap))"

text \<open>
  The array \<open>CTF\<close> before \<open>np.squeeze\<close>, without astigmatism (indexed by defocus, row
  and column) and with it (indexed by defocus, angle, row and column).
\<close>

definition ctf_stack :: "real \<Rightarrow> real list list \<Rightarrow> real list list \<Rightarrow> real list \<Rightarrow> complex list list list" where
  "ctf_stack wnum k2 aperture defoci =
     map (\<lambda>d. map2 (\<lambda>k2row aprow. map2 (\<lambda>k ap. ctf_value (chi_plain wnum k) d ap) k2row aprow)
                 k2 aperture) defoci"

definition ctf_astigmatic_stack ::
  "real \<Rightarrow> real list \<Rightarrow> real list \<Rightarrow> real list list \<Rightarrow> real list list \<Rightarrow> real list \<Rightarrow> real list
     \<Rightarrow> complex list list list list" where
  "ctf_astigmatic_stack wnum kx ky k2 aperture angles defoci =
     map (\<lambda>d. map (\<lambda>ang.
            map2 (\<lambda>(y, k2row) aprow.
                    map2 (\<lambda>(x, k) ap. ctf_value (chi_astigmatic wnum ang x y k) d ap)
                      (zip kx k2row) aprow)
              (zip ky k2) aperture) angles) defoci"

text \<open>
  \<open>np.squeeze(CTF)\<close> drops the axes of length one. For an image of at least two rows and
  two columns these are the defocus and the angle axes only, so the array that is
  returned is a plane, a stack of planes or a stack of stacks.
\<close>

datatype ctf_array =
  Plane "complex list list"
| Stack "complex list list list"
| DoubleStack "complex list list list list"

definition squeeze_stack :: "complex list list list \<Rightarrow> ctf_array" where
  "squeeze_stack arr = (if length arr = 1 then Plane (arr ! 0) else Stack arr)"

definition squeeze_astigmatic_stack :: "nat \<Rightarrow> complex list list list list \<Rightarrow> ctf_array" where
  "squeeze_astigmatic_stack n_angles arr =
     (if length arr = 1 then (if n_angles = 1 then Plane (arr ! 0 ! 0) else Stack (arr ! 0))
      else if n_angles = 1 then Stack (map (\<lambda>planes. planes ! 0) arr)
      else DoubleStack arr)"

text \<open>
  What the lines after the array can raise, in their order. \<open>ModifiedImage(CTF)\<close> needs two
  signal axes, and hyperspy refuses them (ValueError) on an array of fewer than two
  dimensions; the number of navigation axes, \<open>depthdims\<close>, is the number of dimensions of
  the squeezed array less two. Then the code reads \<open>defoci[0]\<close>, \<open>defoci[1]\<close>, \<open>angles[0]\<close>
  and \<open>angles[1]\<close> as \<open>depthdims\<close> and \<open>angles\<close> say, then \<open>axi.axis[0]\<close> and \<open>axi.axis[1]\<close>
  where \<open>axi.axis\<close> was set to the first row of \<open>k2\<close> (\<open>Nx\<close> entries) and to its first column
  (\<open>Ny\<close> entries), the attribute holding what was assigned to it, and in astigmatism mode
  the third axis from the end, \<open>ctf.axes_manager[-3]\<close>: each of them an IndexError when it
  does not exist. So with one angle and several defoci \<open>angles[1]\<close> raises, and with no
  defocus value \<open>defoci[0]\<close> does.
\<close>

definition squeezed_dimensions :: "nat list \<Rightarrow> nat" where
  "squeezed_dimensions shape = length (filter (\<lambda>n. n \<noteq> 1) shape)"

definition has_two :: "real list \<Rightarrow> bool" where
  "has_two xs = (2 \<le> length xs)"

definition ctf_bookkeeping :: "real list \<Rightarrow> real list option \<Rightarrow> nat \<Rightarrow> nat \<Rightarrow> error + unit" where
  "ctf_bookkeeping defoci angles Nx Ny =
     (let ndim = squeezed_dimensions
                   (case angles of
                      None \<Rightarrow> [length defoci, Ny, Nx]
                    | Some angs \<Rightarrow> [length defoci, length angs, Ny, Nx])
      in if ndim < 2 then Inl ValueError
         else
           (let depthdims = ndim - 2;
                depth_read =
                  (case angles of
                     None \<Rightarrow> depthdims \<noteq> 1 \<or> has_two defoci
                   | Some angs \<Rightarrow>
                       if depthdims = 1 then has_two angs
                       else if depthdims = 2 then has_two defoci \<and> has_two angs
                       else True)
            in if \<not> depth_read then Inl IndexError
               else if Nx < 2 \<or> Ny < 2 then Inl IndexError
               else if angles \<noteq> None \<and> ndim < 3 then Inl IndexError
               else Inr ()))"

record ctf_signal =
  ctf :: ctf_array
  ctf_wave_length :: real
  ctf_refractive_index :: real
  ctf_numerical_aperture :: real
  ctf_f_smooth_aperture :: "real option"

definition nav_axis_values :: "image \<Rightarrow> nat \<Rightarrow> real list option" where
  "nav_axis_values img n =
     (if n < length (navigation_axes img) then Some (axis_values (navigation_axes img ! n)) else None)"

definition or_item :: "real option \<Rightarrow> real option \<Rightarrow> real \<Rightarrow> real" where
  "or_item arg item dflt = (case arg of Some v \<Rightarrow> v | None \<Rightarrow> (case item of Some v \<Rightarrow> v | None \<Rightarrow> dflt))"

text \<open>
  \<open>get_contrast_transfer(self, defoci, angles, wlen, nref, NA, fsmooth)\<close>. The result is
  the printed lines together with the returned value, \<open>None\<close> being Python's \<open>None\<close>; of
  the returned image it holds the array and the four parameters stored in its metadata.
  The values that the last lines write to the axes of the returned image are not kept,
  what these lines can raise is; the cast to \<open>complex64\<close> is not part of the model.
  \<open>2.*np.pi / wlen\<close> and \<open>NA * wnum / nref\<close> are quotients of Python numbers. For
  \<open>'both'\<close> the Fourier space comes back as the triple; the two other shapes could not
  be unpacked.
\<close>

definition get_contrast_transfer ::
  "image \<Rightarrow> real list option \<Rightarrow> real list option \<Rightarrow> real option \<Rightarrow> real option \<Rightarrow> real option \<Rightarrow> real option
     \<Rightarrow> error + (string list \<times> ctf_signal option)" where
  "get_contrast_transfer img defoci angles wlen nref NA fsmooth =
     (case (case defoci of
              None \<Rightarrow> (case nav_axis_values img 0 of None \<Rightarrow> None | Some d \<Rightarrow> Some (d, 1))
            | Some d \<Rightarrow> Some (d, 0)) of
        None \<Rightarrow> Inr ([''No defocus value given! Exiting...''], None)
      | Some (defoci', ax_count) \<Rightarrow>
          (let angles' = (case angles of None \<Rightarrow> nav_axis_values img ax_count | Some a \<Rightarrow> Some a)
           in case get_fourier_space img ''both'' of
                Inl e \<Rightarrow> Inl e
              | Inr (Square k2) \<Rightarrow> Inl TypeError
              | Inr (Vectors kx ky) \<Rightarrow> Inl TypeError
              | Inr (Both k2 kx ky) \<Rightarrow>
                  (let wlen' = or_item wlen (wave_length (metadata img)) 1
                   in if wlen' = 0 then Inl ZeroDivisionError
                      else
                        (let nref' = or_item nref (refractive_index (metadata img)) 1;
                             wnum = 2 * pi / wlen' * nref';
                             NA' = or_item NA (numerical_aperture (metadata img)) 1
                         in if nref' = 0 then Inl ZeroDivisionError
                            else
                              (let k2Aperture = (NA' * wnum / nref') ^ 2;
                                   fsmooth' = (case fsmooth of Some f \<Rightarrow> Some f
                                               | None \<Rightarrow> f_smooth_aperture (metadata img));
                                   aperture = map (map (aperture_value k2Aperture fsmooth')) k2;
                                   arr =
                                     (case angles' of
                                        None \<Rightarrow> squeeze_stack (ctf_stack wnum k2 aperture defoci')
                                      | Some angs \<Rightarrow>
                                          squeeze_astigmatic_stack (length angs)
                                            (ctf_astigmatic_stack wnum kx ky k2 aperture angs defoci'))
                               in case ctf_bookkeeping defoci' angles'
                                         (axsize (axis_x img)) (axsize (axis_y img)) of
                                    Inl e \<Rightarrow> Inl e
                                  | Inr _ \<Rightarrow>
                                      Inr ([], Some \<lparr> ctf = arr, ctf_wave_length = wlen',
                                                         ctf_refractive_index = nref',
                                                         ctf_numerical_aperture = NA',
                                                         ctf_f_smooth_aperture = fsmooth' \<rparr>))))))"

section \<open>Padding manager\<close>

text \<open>
  The \<open>pad_width\<close> argument: a flat sequence of numbers, one per signal axis (a Python
  \<open>int\<close> in pixels or a \<open>float\<close> in scaled units), or a sequence of integer tuples
  \<open>(before, after)\<close> or \<open>(pad,)\<close>.
\<close>

datatype pad_number = PadInt int | PadFloat real

datatype pad_widths = PadFlat "pad_number list" | PadPairs "int list list"

text \<open>Python's \<open>int(x)\<close> and numpy's cast to an integer type truncate towards zero.\<close>

definition py_int :: "real \<Rightarrow> int" where
  "py_int x = (if 0 \<le> x then \<lfloor>x\<rfloor> else \<lceil>x\<rceil>)"

text \<open>
  \<open>np.array(pad_width, np.int)\<close>, followed by \<open>pad_arr[:, None]\<close> for a flat sequence. A
  ragged sequence of tuples is no array (ValueError). \<open>np.int\<close> is Python's \<open>int\<close>, as
  in the numpy versions that still have the name.
\<close>

definition pad_array :: "pad_widths \<Rightarrow> error + int list list" where
  "pad_array pw =
     (case pw of
        PadFlat es \<Rightarrow> Inr (map (\<lambda>e. case e of PadInt n \<Rightarrow> [n] | PadFloat v \<Rightarrow> [py_int v]) es)
      | PadPairs rows \<Rightarrow>
          if \<exists>r \<in> set rows. length r \<noteq> length (hd rows) then Inl ValueError else Inr rows)"

text \<open>
  The loop \<open>for pw, ax in zip(pad_width, self.axes_manager.signal_axes)\<close>: a float entry
  is turned into pixels, \<open>pad_arr[io] = np.int(pw / ax.scale)\<close>, a quotient of Python
  numbers. Tuples are no floats and stay.
\<close>

fun scale_floats :: "pad_number list \<Rightarrow> data_axis list \<Rightarrow> int list list \<Rightarrow> error + int list list" where
  "scale_floats (PadFloat v # es) (ax # axs) (row # rows) =
     (if scale ax = 0 then Inl ZeroDivisionError
      else (case scale_floats es axs rows of
              Inl e \<Rightarrow> Inl e
            | Inr rows' \<Rightarrow> Inr ([py_int (v / scale ax)] # rows')))"
| "scale_floats (PadInt n # es) (ax # axs) (row # rows) =
     (case scale_floats es axs rows of Inl e \<Rightarrow> Inl e | Inr rows' \<Rightarrow> Inr (row # rows'))"
| "scale_floats es axs rows = Inr rows"

text \<open>
  How \<open>np.pad\<close> reads a two-dimensional \<open>pad_width\<close> for a two-dimensional array: it is
  broadcast to one pair per array axis, here \<open>((before_y, after_y), (before_x, after_x))\<close>,
  and negative values are refused.
\<close>

definition as_pairs :: "int list list \<Rightarrow> error + ((nat \<times> nat) \<times> (nat \<times> nat))" where
  "as_pairs P =
     (case P of
        [[v]] \<Rightarrow> if v < 0 then Inl ValueError else Inr ((nat v, nat v), (nat v, nat v))
      | [[b, a]] \<Rightarrow> if b < 0 \<or> a < 0 then Inl ValueError else Inr ((nat b, nat a), (nat b, nat a))
      | [[v0], [v1]] \<Rightarrow>
          if v0 < 0 \<or> v1 < 0 then Inl ValueError else Inr ((nat v0, nat v0), (nat v1, nat v1))
      | [[b0, a0], [b1, a1]] \<Rightarrow>
          if b0 < 0 \<or> a0 < 0 \<or> b1 < 0 \<or> a1 < 0 then Inl ValueError
          else Inr ((nat b0, nat a0), (nat b1, nat a1))
      | _ \<Rightarrow> Inl ValueError)"

text \<open>\<open>np.pad(arr, pad_width, 'constant', constant_values=c)\<close> on one plane.\<close>

definition plane_width :: "'a list list \<Rightarrow> nat" where
  "plane_width plane = (case plane of [] \<Rightarrow> 0 | row # _ \<Rightarrow> length row)"

definition pad_plane :: "'a \<Rightarrow> (nat \<times> nat) \<times> (nat \<times> nat) \<Rightarrow> 'a list list \<Rightarrow> 'a list list" where
  "pad_plane c pairs plane =
     (case pairs of ((before_y, after_y), (before_x, after_x)) \<Rightarrow>
        (let w = before_x + plane_width plane + after_x
         in replicate before_y (replicate w c)
            @ map (\<lambda>row. replicate before_x c @ row @ replicate after_x c) plane
            @ replicate after_y (replicate w c)))"

definition pad_pixels :: "(nat \<times> nat) \<times> (nat \<times> nat) \<Rightarrow> pixels \<Rightarrow> pixels" where
  "pad_pixels pairs px =
     (case px of
        RealPixels planes \<Rightarrow> RealPixels (map (pad_plane 0 pairs) planes)
      | ComplexPixels planes \<Rightarrow> ComplexPixels (map (pad_plane 0 pairs) planes))"

text \<open>
  \<open>pad_arr[np.argsort(indices)]\<close>: the rows of \<open>pad_arr\<close> follow the signal axes \<open>(x, y)\<close>,
  whose indices in the array are decreasing, so two rows are swapped into array order.
\<close>

definition array_order :: "int list list \<Rightarrow> int list list" where
  "array_order rows = (case rows of [rx, ry] \<Rightarrow> [ry, rx] | _ \<Rightarrow> rows)"

text \<open>
  \<open>set_pad(self, pad_width, 'constant', constant_values=0)\<close>. \<open>self.map\<close> pads every plane
  and reads the sizes of the signal axes from the new data; their offsets and scales stay.
\<close>

definition set_pad :: "image \<Rightarrow> pad_widths option \<Rightarrow> error + image" where
  "set_pad img pw =
     (case pw of
        None \<Rightarrow> Inr img
      | Some w \<Rightarrow>
          (case pad_array w of
             Inl e \<Rightarrow> Inl e
           | Inr pad_arr \<Rightarrow>
               if 2 < length pad_arr then Inl ValueError
               else
                 (case (case w of PadFlat es \<Rightarrow> scale_floats es [axis_x img, axis_y img] pad_arr
                        | PadPairs rows \<Rightarrow> Inr pad_arr) of
                    Inl e \<Rightarrow> Inl e
                  | Inr pad_arr' \<Rightarrow>
                      (case as_pairs (array_order pad_arr') of
                         Inl e \<Rightarrow> Inl e
                       | Inr ((before_y, after_y), (before_x, after_x)) \<Rightarrow>
                           Inr (img \<lparr> data := pad_pixels ((before_y, after_y), (before_x, after_x)) (data img),
                                      axis_x := (axis_x img) \<lparr> axsize := before_x + axsize (axis_x img) + after_x \<rparr>,
                                      axis_y := (axis_y img) \<lparr> axsize := before_y + axsize (axis_y img) + after_y \<rparr>,
                                      metadata := (metadata img) \<lparr> pad_width := Some pad_arr' \<rparr> \<rparr>)))))"

text \<open>
  \<open>ax._get_array_slices(i).start\<close> for an integer \<open>i\<close>: hyperspy's positive index, with
  IndexError when \<open>i\<close> lies before the first pixel.
\<close>

definition positive_index :: "data_axis \<Rightarrow> int \<Rightarrow> error + nat" where
  "positive_index ax i =
     (if i < 0 then (if int (axsize ax) + i < 0 then Inl IndexError else Inr (nat (int (axsize ax) + i)))
      else Inr (nat i))"

text \<open>
  The loop of \<open>remove_pad\<close> over \<open>zip(pad_width, self.axes_manager.signal_axes)\<close>, with the
  list \<open>sum_up\<close> and the slicers set so far; \<open>None\<close> is \<open>slice(None)\<close> and \<open>Some (a, b)\<close> is
  \<open>slice(a, b)\<close>. Since \<open>b.stop\<close> is \<open>b.start + 1\<close>, \<open>slice(a.start, b.stop-1)\<close> is
  \<open>slice(a.start, b.start)\<close>.
\<close>

fun remove_pad_loop ::
  "(int list \<times> data_axis) list \<Rightarrow> real list \<Rightarrow> (nat \<times> nat) option list
     \<Rightarrow> error + (real list \<times> (nat \<times> nat) option list)" where
  "remove_pad_loop [] sum_up slicers = Inr (sum_up, slicers)"
| "remove_pad_loop ((pw, ax) # rest) sum_up slicers =
     (case (case pw of [] \<Rightarrow> Inl IndexError | [p] \<Rightarrow> Inr (p, p) | p0 # p1 # _ \<Rightarrow> Inr (p0, p1)) of
        Inl e \<Rightarrow> Inl e
      | Inr (p0, p1) \<Rightarrow>
          if p0 \<noteq> 0 \<and> p1 \<noteq> 0 then
            (case positive_index ax p0 of
               Inl e \<Rightarrow> Inl e
             | Inr a \<Rightarrow>
                 (case positive_index ax (- p1) of
                    Inl e \<Rightarrow> Inl e
                  | Inr b \<Rightarrow>
                      remove_pad_loop rest (sum_up @ [real a * scale ax]) (slicers @ [Some (a, b)])))
          else remove_pad_loop rest [0] (slicers @ [None]))"

text \<open>
  \<open>self.isig[slicers]\<close> on one axis: the data keeps the indices from \<open>a\<close> up to \<open>b\<close>, and
  the axis takes the value at index \<open>a\<close> as its new offset (IndexError beyond the axis).
\<close>

definition slice_list :: "(nat \<times> nat) option \<Rightarrow> 'a list \<Rightarrow> 'a list" where
  "slice_list sl xs = (case sl of None \<Rightarrow> xs | Some (a, b) \<Rightarrow> take (b - a) (drop a xs))"

definition slice_axis :: "(nat \<times> nat) option \<Rightarrow> data_axis \<Rightarrow> error + data_axis" where
  "slice_axis sl ax =
     (case sl of
        None \<Rightarrow> Inr ax
      | Some (a, b) \<Rightarrow>
          if axsize ax \<le> a then Inl IndexError
          else Inr (ax \<lparr> offset := offset ax + scale ax * real a,
                         axsize := length (slice_list sl [0..<axsize ax]) \<rparr>))"

definition slice_plane :: "(nat \<times> nat) option \<Rightarrow> (nat \<times> nat) option \<Rightarrow> 'a list list \<Rightarrow> 'a list list" where
  "slice_plane sx sy plane = map (slice_list sx) (slice_list sy plane)"

definition slice_pixels :: "(nat \<times> nat) option \<Rightarrow> (nat \<times> nat) option \<Rightarrow> pixels \<Rightarrow> pixels" where
  "slice_pixels sx sy px =
     (case px of
        RealPixels planes \<Rightarrow> RealPixels (map (slice_plane sx sy) planes)
      | ComplexPixels planes \<Rightarrow> ComplexPixels (map (slice_plane sx sy) planes))"

text \<open>\<open>for io, pw in enumerate(sum_up): out.axes_manager.signal_axes[io].offset -= pw\<close>.\<close>

definition reset_offset :: "real list \<Rightarrow> nat \<Rightarrow> data_axis \<Rightarrow> data_axis" where
  "reset_offset sum_up io ax =
     (if io < length sum_up then ax \<lparr> offset := offset ax - sum_up ! io \<rparr> else ax)"

definition remove_pad :: "image \<Rightarrow> error + image" where
  "remove_pad img =
     (case pad_width (metadata img) of
        None \<Rightarrow> Inr img
      | Some pw \<Rightarrow>
          if 2 < length pw then Inl ValueError
          else
            (case remove_pad_loop (zip pw [axis_x img, axis_y img]) [] [] of
               Inl e \<Rightarrow> Inl e
             | Inr (sum_up, slicers) \<Rightarrow>
                 (let sx = (if 0 < length slicers then slicers ! 0 else None);
                      sy = (if 1 < length slicers then slicers ! 1 else None)
                  in case slice_axis sx (axis_x img) of
                       Inl e \<Rightarrow> Inl e
                     | Inr x_axis \<Rightarrow>
                         (case slice_axis sy (axis_y img) of
                            Inl e \<Rightarrow> Inl e
                          | Inr y_axis \<Rightarrow>
                              Inr (img \<lparr> data := slice_pixels sx sy (data img),
                                         axis_x := reset_offset sum_up 0 x_axis,
                                         axis_y := reset_offset sum_up 1 y_axis,
                                         metadata := (metadata img) \<lparr> pad_width := None \<rparr> \<rparr>)))))"

section \<open>Validation: Fourier ring correlation\<close>

text \<open>
  Elementwise arithmetic of two arrays needs equal shapes (ValueError otherwise); a
  quotient by zero is \<open>nan\<close> or \<open>inf\<close>, here \<open>None\<close>.
\<close>

fun zip_result :: "('a \<Rightarrow> 'b \<Rightarrow> error + 'c) \<Rightarrow> 'a list \<Rightarrow> 'b list \<Rightarrow> error + 'c list" where
  "zip_result f [] [] = Inr []"
| "zip_result f (x # xs) (y # ys) =
     (case f x y of
        Inl e \<Rightarrow> Inl e
      | Inr z \<Rightarrow> (case zip_result f xs ys of Inl e \<Rightarrow> Inl e | Inr zs \<Rightarrow> Inr (z # zs)))"
| "zip_result f xs ys = Inl ValueError"

definition np_divide :: "real \<Rightarrow> real option \<Rightarrow> real option" where
  "np_divide a b = (case b of None \<Rightarrow> None | Some d \<Rightarrow> if d = 0 then None else Some (a / d))"

definition cross_correlation :: "complex list list list \<Rightarrow> complex list list list \<Rightarrow> error + real list list list" where
  "cross_correlation obs_ft exp_ft =
     zip_result (zip_result (zip_result (\<lambda>a b. Inr (Re (a * cnj b))))) obs_ft exp_ft"

definition auto_correlation :: "complex list list list \<Rightarrow> real list list list" where
  "auto_correlation ft = map (map (map (\<lambda>a. (cmod a) ^ 2))) ft"

definition real_rows :: "integral_signal \<Rightarrow> real list list" where
  "real_rows s = (case integral s of RealIntegrals rows \<Rightarrow> rows | ComplexIntegrals rows \<Rightarrow> map (map Re) rows)"

text \<open>
  \<open>run_fourier_ring_correlation(self, bin_size)\<close> on the images \<open>self.obs\<close> and
  \<open>self.exp\<close> of the validation object. hyperspy's \<open>fft(True)\<close> is a parameter: it gives the complex
  transform with its own axes, and \<open>.amplitude\<close> exists on a complex signal only. The
  three maps take the axes of the transform they come from.
\<close>

definition run_fourier_ring_correlation ::
  "(image \<Rightarrow> image) \<Rightarrow> image \<Rightarrow> image \<Rightarrow> bin_size \<Rightarrow> error + real option list list" where
  "run_fourier_ring_correlation fft obs_img exp_img bs =
     (let exp_ft = fft exp_img; obs_ft = fft obs_img
      in case (data obs_ft, data exp_ft) of
           (ComplexPixels o_planes, ComplexPixels e_planes) \<Rightarrow>
             (case cross_correlation o_planes e_planes of
                Inl e \<Rightarrow> Inl e
              | Inr xc_planes \<Rightarrow>
                  (let exp_obs_xc = obs_ft \<lparr> data := RealPixels xc_planes \<rparr>;
                       obs_ac = obs_ft \<lparr> data := RealPixels (auto_correlation o_planes) \<rparr>;
                       exp_ac = exp_ft \<lparr> data := RealPixels (auto_correlation e_planes) \<rparr>
                   in case integrate_radial exp_obs_xc bs False None True of
                        Inl e \<Rightarrow> Inl e
                      | Inr xc \<Rightarrow>
                          (case integrate_radial exp_ac bs False None True of
                             Inl e \<Rightarrow> Inl e
                           | Inr ac1 \<Rightarrow>
                               (case integrate_radial obs_ac bs False None True of
                                  Inl e \<Rightarrow> Inl e
                                | Inr ac2 \<Rightarrow>
                                    (case zip_result (zip_result (\<lambda>a b. Inr (a * b)))
                                            (real_rows ac1) (real_rows ac2) of
                                       Inl e \<Rightarrow> Inl e
                                     | Inr ac_prod \<Rightarrow>
                                         zip_result (zip_result (\<lambda>x p. Inr (np_divide x (np_sqrt p))))
                                           (real_rows xc) ac_prod)))))
         | _ \<Rightarrow> Inl AttributeError)"

section \<open>Vocabulary of the statements\<close>

text \<open>
  The two digitizations differ in the mesh and in the width of an integer \<open>bin_size\<close>
  only; \<open>get_digitized\<close> names both, so that one statement covers them.
\<close>

datatype mesh_kind = Radial | Angular

definition coordinate_mesh :: "mesh_kind \<Rightarrow> real list \<Rightarrow> real list \<Rightarrow> real list list" where
  "coordinate_mesh kind xx yy = (case kind of Radial \<Rightarrow> radius_mesh xx yy | Angular \<Rightarrow> angle_mesh xx yy)"

definition resolved_bin_size :: "mesh_kind \<Rightarrow> image \<Rightarrow> real list list \<Rightarrow> bin_size \<Rightarrow> error + real" where
  "resolved_bin_size kind img mesh bs =
     (case kind of Radial \<Rightarrow> radius_bin_size img mesh bs | Angular \<Rightarrow> angle_bin_size img bs)"

definition get_digitized :: "mesh_kind \<Rightarrow> image \<Rightarrow> bin_size \<Rightarrow> bool \<Rightarrow> shift list option \<Rightarrow> error + real list list" where
  "get_digitized kind img bs shifted shifts =
     (case kind of
        Radial \<Rightarrow> get_digitized_radius img bs shifted shifts
      | Angular \<Rightarrow> get_digitized_angle img bs shifted shifts)"

text \<open>
  The edge above a sample when the edges start at \<open>lo\<close> and are \<open>b\<close> apart, the sample lying
  in the bin between the edges \<open>k\<close> and \<open>k + 1\<close>, and the closed form of the edges that
  \<open>np.arange(lo, hi + 1.1 * b, b)\<close> gives.
\<close>

definition upper_edge :: "real \<Rightarrow> real \<Rightarrow> real \<Rightarrow> real" where
  "upper_edge lo b x = lo + (of_int \<lfloor>(x - lo) / b\<rfloor> + 1) * b"

definition in_bin :: "real list \<Rightarrow> nat \<Rightarrow> real \<Rightarrow> bool" where
  "in_bin bins k x = (Suc k < length bins \<and> bins ! k \<le> x \<and> x < bins ! Suc k)"

definition edges :: "real \<Rightarrow> real \<Rightarrow> real \<Rightarrow> real list" where
  "edges lo hi b = map (\<lambda>i. lo + real i * b) [0..<nat \<lceil>(hi + 1.1 * b - lo) / b\<rceil>]"

text \<open>
  A returned CTF array has the shape of \<open>k2\<close> in its planes, and the entry at row \<open>j\<close> and
  column \<open>i\<close> is zero in every one of them: for each defocus, and for each angle in
  astigmatism mode.
\<close>

definition zero_at :: "ctf_array \<Rightarrow> real list list \<Rightarrow> nat \<Rightarrow> nat \<Rightarrow> bool" where
  "zero_at arr k2 j i =
     (case arr of
        Plane p \<Rightarrow> length p = length k2 \<and> length (p ! j) = length (k2 ! j) \<and> p ! j ! i = 0
      | Stack s \<Rightarrow>
          (\<forall>d < length s. length (s ! d) = length k2 \<and> length (s ! d ! j) = length (k2 ! j)
                           \<and> s ! d ! j ! i = 0)
      | DoubleStack s \<Rightarrow>
          (\<forall>d < length s. \<forall>a < length (s ! d).
              length (s ! d ! a) = length k2 \<and> length (s ! d ! a ! j) = length (k2 ! j)
              \<and> s ! d ! a ! j ! i = 0))"

section \<open>Shapes and concrete inputs\<close>

text \<open>
  Every plane of the data has the shape of the mask; the number of planes; the lengths
  of the rows of an integral.
\<close>

definition same_shape :: "pixels \<Rightarrow> real list list \<Rightarrow> bool" where
  "same_shape px bin_mask =
     (case px of
        RealPixels planes \<Rightarrow> list_all (\<lambda>p. map length p = map length bin_mask) planes
      | ComplexPixels planes \<Rightarrow> list_all (\<lambda>p. map length p = map length bin_mask) planes)"

definition plane_count :: "pixels \<Rightarrow> nat" where
  "plane_count px = (case px of RealPixels planes \<Rightarrow> length planes | ComplexPixels planes \<Rightarrow> length planes)"

definition row_lengths :: "integrals \<Rightarrow> nat list" where
  "row_lengths v = (case v of RealIntegrals rows \<Rightarrow> map length rows | ComplexIntegrals rows \<Rightarrow> map length rows)"

text \<open>
  The data of an image fits its signal axes: every plane has as many rows as the y axis
  has pixels, and every row as many entries as the x axis.
\<close>

definition well_formed :: "image \<Rightarrow> bool" where
  "well_formed img =
     (case data img of
        RealPixels planes \<Rightarrow>
          list_all (\<lambda>p. length p = axsize (axis_y img)
                         \<and> list_all (\<lambda>r. length r = axsize (axis_x img)) p) planes
      | ComplexPixels planes \<Rightarrow>
          list_all (\<lambda>p. length p = axsize (axis_y img)
                         \<and> list_all (\<lambda>r. length r = axsize (axis_x img)) p) planes)"

text \<open>Small images the statements below are run on.\<close>

definition example_metadata :: metadata where
  "example_metadata = \<lparr> pad_width = None, wave_length = None, refractive_index = None,
     numerical_aperture = None, f_smooth_aperture = None \<rparr>"

definition example_complex :: image where
  "example_complex =
     \<lparr> data = ComplexPixels [[[Complex 1 2, Complex 3 4], [Complex 5 6, Complex 7 8]]],
       axis_x = \<lparr> scale = 1, offset = 0, axsize = 2 \<rparr>,
       axis_y = \<lparr> scale = 1, offset = 0, axsize = 2 \<rparr>,
       navigation_axes = [], metadata = example_metadata \<rparr>"

definition example_real :: image where
  "example_real =
     \<lparr> data = RealPixels [[[5]]],
       axis_x = \<lparr> scale = 1, offset = 0, axsize = 1 \<rparr>,
       axis_y = \<lparr> scale = 1, offset = 0, axsize = 1 \<rparr>,
       navigation_axes = [], metadata = example_metadata \<rparr>"

text \<open>
  Two pixels in a row: \<open>1.95\<close> apart from the origin on, and one apart from \<open>1\<close> on.
\<close>

definition example_wide :: image where
  "example_wide =
     \<lparr> data = RealPixels [[[1, 2]]],
       axis_x = \<lparr> scale = 39 / 20, offset = 0, axsize = 2 \<rparr>,
       axis_y = \<lparr> scale = 1, offset = 0, axsize = 1 \<rparr>,
       navigation_axes = [], metadata = example_metadata \<rparr>"

definition example_offset :: image where
  "example_offset =
     \<lparr> data = RealPixels [[[1, 2]]],
       axis_x = \<lparr> scale = 1, offset = 1, axsize = 2 \<rparr>,
       axis_y = \<lparr> scale = 1, offset = 0, axsize = 1 \<rparr>,
       navigation_axes = [], metadata = example_metadata \<rparr>"

text \<open>Two pixels in a row at \<open>-1\<close> and \<open>1\<close>: their angles are \<open>pi\<close> and \<open>0\<close>.\<close>

definition example_centred :: image where
  "example_centred =
     \<lparr> data = RealPixels [[[1, 2]]],
       axis_x = \<lparr> scale = 2, offset = - 1, axsize = 2 \<rparr>,
       axis_y = \<lparr> scale = 1, offset = 0, axsize = 1 \<rparr>,
       navigation_axes = [], metadata = example_metadata \<rparr>"

text \<open>Two by two pixels of unit scale.\<close>

definition example_square :: image where
  "example_square =
     \<lparr> data = RealPixels [[[1, 2], [3, 4]]],
       axis_x = \<lparr> scale = 1, offset = 0, axsize = 2 \<rparr>,
       axis_y = \<lparr> scale = 1, offset = 0, axsize = 2 \<rparr>,
       navigation_axes = [], metadata = example_metadata \<rparr>"

text \<open>\<open>example_square\<close> with one pixel of padding before each signal axis and none after.\<close>

definition example_padded :: image where
  "example_padded =
     \<lparr> data = RealPixels [[[0, 0, 0], [0, 1, 2], [0, 3, 4]]],
       axis_x = \<lparr> scale = 1, offset = 0, axsize = 3 \<rparr>,
       axis_y = \<lparr> scale = 1, offset = 0, axsize = 3 \<rparr>,
       navigation_axes = [],
       metadata = example_metadata \<lparr> pad_width := Some [[1, 0], [1, 0]] \<rparr> \<rparr>"

text \<open>
  The Fourier transform of an image of one pixel is that pixel, on axes of the same
  scale and offset when the scale is one.
\<close>

definition one_pixel_fft :: "image \<Rightarrow> image" where
  "one_pixel_fft img =
     img \<lparr> data := (case data img of
                       RealPixels planes \<Rightarrow> ComplexPixels (map (map (map complex_of_real)) planes)
                     | ComplexPixels planes \<Rightarrow> ComplexPixels planes) \<rparr>"

section \<open>Properties of the array primitives\<close>

lemma np_unique_set: "set (np_unique xs) = set xs" by (simp add: np_unique_def)
lemma np_unique_sorted: "sorted (np_unique xs)" by (simp add: np_unique_def)
lemma np_unique_distinct: "distinct (np_unique xs)" by (simp add: np_unique_def)
lemma np_unique_length: "length (np_unique xs) = card (set xs)"
  by (metis np_unique_distinct np_unique_set distinct_card)

lemma index_of_less: "x \<in> set us \<Longrightarrow> index_of us x < length us"
  unfolding index_of_def by (induction us) auto

lemma index_of_nth: "x \<in> set us \<Longrightarrow> us ! index_of us x = x"
  unfolding index_of_def by (induction us) auto

lemma index_of_last: "distinct us \<Longrightarrow> us \<noteq> [] \<Longrightarrow> index_of us (last us) = length us - 1"
  unfolding index_of_def by (induction us) auto

lemma fold_max_Max: "fold max ix (0::nat) = Max (insert 0 (set ix))"
  using Max.set_eq_fold [of 0 ix] by simp

lemma bincount_len_unique_nonempty:
  assumes "xs \<noteq> []"
  shows "bincount_len (unique_inverse xs) = length (np_unique xs)"
proof -
  let ?u = "np_unique xs"
  have ne: "?u \<noteq> []" using assms np_unique_set [of xs] by auto
  have bound: "\<forall>i \<in> insert 0 (set (unique_inverse xs)). i \<le> length ?u - 1"
    using index_of_less [of _ ?u] ne by (fastforce simp: unique_inverse_def np_unique_set)
  have "last ?u \<in> set xs" using ne np_unique_set last_in_set by blast
  then have "index_of ?u (last ?u) \<in> set (unique_inverse xs)"
    by (auto simp: unique_inverse_def)
  then have mem: "length ?u - 1 \<in> insert 0 (set (unique_inverse xs))"
    using index_of_last [OF np_unique_distinct ne] by simp
  have "Max (insert 0 (set (unique_inverse xs))) = length ?u - 1"
    by (rule Max_eqI) (use bound mem in auto)
  then show ?thesis using assms ne
    by (simp add: bincount_len_def fold_max_Max unique_inverse_def)
qed

lemma bincount_len_unique: "bincount_len (unique_inverse xs) = length (np_unique xs)"
proof (cases "xs = []")
  case True
  then show ?thesis by (simp add: bincount_len_def unique_inverse_def np_unique_def)
next
  case False
  then show ?thesis by (rule bincount_len_unique_nonempty)
qed

lemma length_unique_inverse: "length (unique_inverse xs) = length xs"
  by (simp add: unique_inverse_def)

lemma length_unique_counts: "length (unique_counts xs) = length (np_unique xs)"
  by (simp add: unique_counts_def)

lemma np_bincount_unique:
  assumes "length w = length xs"
  shows "\<exists>out. np_bincount (unique_inverse xs) w = Inr out \<and> length out = card (set xs)"
  using assms by (simp add: np_bincount_def length_unique_inverse bincount_len_unique np_unique_length)

lemma length_ravel_same_shape:
  "map length a = map length b \<Longrightarrow> length (ravel a) = length (ravel b)"
  by (simp add: ravel_def length_concat)

lemma integrate_binary_real_length:
  assumes "map length sdata = map length bin_mask"
  shows "\<exists>out. integrate_binary_real sdata bin_mask normalise = Inr out
           \<and> length out = card (set (ravel bin_mask))"
proof -
  from np_bincount_unique [OF length_ravel_same_shape [OF assms]]
  obtain out where o: "np_bincount (unique_inverse (ravel bin_mask)) (ravel sdata) = Inr out"
    and l: "length out = card (set (ravel bin_mask))" by blast
  show ?thesis using o l
    by (simp add: integrate_binary_real_def length_unique_counts np_unique_length)
qed

lemma map2_complex_div:
  assumes "length re = length im" "length im = length cts"
  shows "map2 (\<lambda>v c. v / of_nat c) (map2 (\<lambda>a b. complex_of_real a + \<i> * complex_of_real b) re im) cts
       = map2 (\<lambda>a b. complex_of_real a + \<i> * complex_of_real b)
           (map2 (\<lambda>v c. v / real c) re cts) (map2 (\<lambda>v c. v / real c) im cts)"
  using assms
proof (induction re im cts rule: list_induct3)
  case Nil
  then show ?case by simp
next
  case (Cons x xs y ys z zs)
  then show ?case by (simp add: add_divide_distrib)
qed

lemma ravel_map_map: "ravel (map (map f) a) = map f (ravel a)"
  by (simp add: ravel_def map_concat)

lemma integrate_binary_comp_length:
  assumes "map length sdata = map length bin_mask"
  shows "\<exists>out. integrate_binary_comp sdata bin_mask normalise = Inr out
           \<and> length out = card (set (ravel bin_mask))"
proof -
  let ?ix = "unique_inverse (ravel bin_mask)"
  have len: "length (ravel sdata) = length (ravel bin_mask)"
    using assms by (rule length_ravel_same_shape)
  obtain rs where rs: "np_bincount ?ix (ravel (map (map Re) sdata)) = Inr rs"
    and lrs: "length rs = card (set (ravel bin_mask))"
    using np_bincount_unique [of "ravel (map (map Re) sdata)" "ravel bin_mask"] len
    by (auto simp: ravel_map_map)
  obtain ims where ims: "np_bincount ?ix (ravel (map (map Im) sdata)) = Inr ims"
    and lis: "length ims = card (set (ravel bin_mask))"
    using np_bincount_unique [of "ravel (map (map Im) sdata)" "ravel bin_mask"] len
    by (auto simp: ravel_map_map)
  show ?thesis using rs ims lrs lis
    by (simp add: integrate_binary_comp_def length_unique_counts np_unique_length Let_def)
qed

lemma map_result_all:
  assumes "\<And>x. x \<in> set xs \<Longrightarrow> \<exists>y. f x = Inr y \<and> P y"
  shows "\<exists>ys. map_result f xs = Inr ys \<and> length ys = length xs \<and> list_all P ys"
  using assms
proof (induction xs)
  case Nil
  then show ?case by simp
next
  case (Cons a xs)
  obtain y where y: "f a = Inr y" "P y" using Cons.prems [of a] by auto
  obtain ys where ys: "map_result f xs = Inr ys" "length ys = length xs" "list_all P ys"
    using Cons.IH Cons.prems by auto
  show ?case using y ys by simp
qed

lemma list_all_length_replicate:
  "list_all (\<lambda>r. length r = n) rows \<Longrightarrow> map length rows = replicate (length rows) n"
  by (induction rows) auto

section \<open>Claims about the binarized integration\<close>

text \<open>
  C9. For a complex array and a bin mask of the same shape, \<open>integrate_binary_comp\<close>
  returns, bin by bin, the result of \<open>integrate_binary_real\<close> on the real part plus
  \<open>\<i>\<close> times its result on the imaginary part, under the same \<open>normalize\<close> setting; all
  three calls return.
\<close>

theorem integrate_binary_comp_linear:
  assumes "map length sdata = map length bin_mask"
  shows "\<exists>re im. integrate_binary_real (map (map Re) sdata) bin_mask normalise = Inr re
           \<and> integrate_binary_real (map (map Im) sdata) bin_mask normalise = Inr im
           \<and> length re = length im
           \<and> integrate_binary_comp sdata bin_mask normalise
               = Inr (map2 (\<lambda>a b. complex_of_real a + \<i> * complex_of_real b) re im)"
proof -
  let ?ix = "unique_inverse (ravel bin_mask)"
  let ?cts = "unique_counts (ravel bin_mask)"
  have len: "length (ravel sdata) = length (ravel bin_mask)"
    using assms by (rule length_ravel_same_shape)
  obtain rs where rs: "np_bincount ?ix (ravel (map (map Re) sdata)) = Inr rs"
    and lrs: "length rs = card (set (ravel bin_mask))"
    using np_bincount_unique [of "ravel (map (map Re) sdata)" "ravel bin_mask"] len
    by (auto simp: ravel_map_map)
  obtain ims where ims: "np_bincount ?ix (ravel (map (map Im) sdata)) = Inr ims"
    and lis: "length ims = card (set (ravel bin_mask))"
    using np_bincount_unique [of "ravel (map (map Im) sdata)" "ravel bin_mask"] len
    by (auto simp: ravel_map_map)
  have lc: "length ims = length ?cts"
    by (simp add: lis length_unique_counts np_unique_length)
  show ?thesis
  proof (cases normalise)
    case True
    then show ?thesis
      using rs ims lrs lis lc
      by (simp add: integrate_binary_real_def integrate_binary_comp_def map2_complex_div)
  next
    case False
    then show ?thesis
      using rs ims lrs lis
      by (simp add: integrate_binary_real_def integrate_binary_comp_def)
  qed
qed

theorem integrate_binary_comp_linear_witness:
  "integrate_binary_comp [[Complex 1 2, Complex 3 4], [Complex 5 6, Complex 7 8]] [[0, 1], [1, 1]] True
     = Inr [Complex 1 2, Complex 5 6]"
proof -
  have h: "map length [[Complex 1 2, Complex 3 4], [Complex 5 6, Complex 7 8]] = map length [[0, 1], [1, 1::real]]"
    by simp
  have r: "integrate_binary_real [[1, 3], [5, 7]] [[0, 1], [1, 1]] True = Inr [1, 5]"
    by (simp add: integrate_binary_real_def ravel_def unique_inverse_def unique_counts_def
        np_unique_def index_of_def np_bincount_def bincount_len_def upt_rec)
  have i: "integrate_binary_real [[2, 4], [6, 8]] [[0, 1], [1, 1]] True = Inr [2, 6]"
    by (simp add: integrate_binary_real_def ravel_def unique_inverse_def unique_counts_def
        np_unique_def index_of_def np_bincount_def bincount_len_def upt_rec)
  show ?thesis
    using integrate_binary_comp_linear [OF h, of True] r i
    by (auto simp: complex_eq_iff)
qed

text \<open>
  C10. For an image with real or complex data whose planes have the shape of the bin
  mask, \<open>integrate_binary\<close> returns, and each one-dimensional result (one per plane) has
  as many entries as the mask has distinct values, whatever the \<open>normalize\<close> setting.
\<close>

theorem integrate_binary_length:
  assumes "same_shape (data img) bin_mask"
  shows "\<exists>res. integrate_binary img bin_mask normalise = Inr res
           \<and> row_lengths (integral res)
               = replicate (plane_count (data img)) (card (set (ravel bin_mask)))"
proof (cases "data img")
  case (RealPixels planes)
  have "\<And>p. p \<in> set planes \<Longrightarrow>
          \<exists>y. integrate_binary_real p bin_mask normalise = Inr y \<and> length y = card (set (ravel bin_mask))"
    using assms RealPixels integrate_binary_real_length
    by (simp add: same_shape_def list_all_iff)
  from map_result_all [of planes "\<lambda>p. integrate_binary_real p bin_mask normalise"
      "\<lambda>y. length y = card (set (ravel bin_mask))", OF this]
  obtain rows where rows: "map_result (\<lambda>p. integrate_binary_real p bin_mask normalise) planes = Inr rows"
    "length rows = length planes" "list_all (\<lambda>y. length y = card (set (ravel bin_mask))) rows"
    by blast
  show ?thesis using RealPixels rows list_all_length_replicate [OF rows(3)]
    by (simp add: integrate_binary_def row_lengths_def plane_count_def Let_def)
next
  case (ComplexPixels planes)
  have "\<And>p. p \<in> set planes \<Longrightarrow>
          \<exists>y. integrate_binary_comp p bin_mask normalise = Inr y \<and> length y = card (set (ravel bin_mask))"
    using assms ComplexPixels integrate_binary_comp_length
    by (simp add: same_shape_def list_all_iff)
  from map_result_all [of planes "\<lambda>p. integrate_binary_comp p bin_mask normalise"
      "\<lambda>y. length y = card (set (ravel bin_mask))", OF this]
  obtain rows where rows: "map_result (\<lambda>p. integrate_binary_comp p bin_mask normalise) planes = Inr rows"
    "length rows = length planes" "list_all (\<lambda>y. length y = card (set (ravel bin_mask))) rows"
    by blast
  show ?thesis using ComplexPixels rows list_all_length_replicate [OF rows(3)]
    by (simp add: integrate_binary_def row_lengths_def plane_count_def Let_def)
qed

theorem integrate_binary_length_witness:
  "same_shape (data example_complex) [[0, 1], [1, 1]]
   \<and> (\<exists>res. integrate_binary example_complex [[0, 1], [1, 1]] True = Inr res
          \<and> row_lengths (integral res) = [2])"
proof -
  have h: "same_shape (data example_complex) [[0, 1], [1, 1]]"
    by (simp add: same_shape_def example_complex_def)
  have c: "card (set (ravel [[0, 1], [1, 1::real]])) = 2"
    by (simp add: ravel_def)
  show ?thesis
    using h integrate_binary_length [OF h, of True] c
    by (simp add: plane_count_def example_complex_def)
qed

section \<open>Claims about errors\<close>

text \<open>
  C6. For an image without navigation axis and no \<open>defoci\<close> argument,
  \<open>get_contrast_transfer\<close> raises nothing: it prints its diagnostic and returns \<open>None\<close>.
\<close>

theorem no_defocus_returns_none:
  assumes "navigation_axes img = []"
  shows "get_contrast_transfer img None angles wlen nref NA fsmooth
           = Inr ([''No defocus value given! Exiting...''], None)"
  using assms by (simp add: get_contrast_transfer_def nav_axis_values_def)

theorem no_defocus_returns_none_witness:
  "navigation_axes example_real = []
   \<and> get_contrast_transfer example_real None None None None None None
       = Inr ([''No defocus value given! Exiting...''], None)"
proof -
  have h: "navigation_axes example_real = []" by (simp add: example_real_def)
  show ?thesis using h no_defocus_returns_none [OF h] by simp
qed

text \<open>
  Shifts of a length other than two make \<open>get_real_space\<close> fail on every image with
  pixels, and the exception is the TypeError of raising a string.
\<close>

lemma get_real_space_wrong_shifts:
  assumes "length shs \<noteq> 2" "0 < axsize (axis_x img)" "0 < axsize (axis_y img)"
  shows "get_real_space img shifted (Some shs) = Inl TypeError"
proof -
  have x: "axis_values (axis_x img) \<noteq> []" using assms(2) by (simp add: axis_values_def)
  have y: "axis_values (axis_y img) \<noteq> []" using assms(3) by (simp add: axis_values_def)
  show ?thesis using assms(1) x y
    by (auto simp: get_real_space_def centre_coords_def np_max_def Let_def split: list.splits)
qed

text \<open>
  C7. The claim asks for a ValueError when \<open>shifts\<close> has not two entries. On the image
  \<open>example_square\<close> with \<open>shifts = [1]\<close> the code fails with a TypeError instead.
\<close>

theorem shifts_length_raises_type_error:
  "get_real_space example_square True (Some [IntShift 1]) = Inl TypeError
   \<and> get_real_space example_square True (Some [IntShift 1]) \<noteq> Inl ValueError"
  by (simp add: get_real_space_def example_square_def centre_coords_def np_max_def axis_values_def
      Let_def upt_rec)

section \<open>Claims about padding\<close>

text \<open>
  C1. The claim asks that \<open>remove_pad\<close> after \<open>set_pad\<close> with zeros gives back the array
  and the offsets for every valid pad width. With the pad width \<open>((1, 0), (1, 0))\<close> on
  \<open>example_square\<close> the padded image has three rows and three columns, and \<open>remove_pad\<close>
  removes nothing: it only deletes the metadata item.
\<close>

theorem remove_pad_keeps_one_sided_pad:
  "set_pad example_square (Some (PadPairs [[1, 0], [1, 0]])) = Inr example_padded
   \<and> remove_pad example_padded = Inr (example_padded \<lparr> metadata := example_metadata \<rparr>)
   \<and> data (example_padded \<lparr> metadata := example_metadata \<rparr>) \<noteq> data example_square"
  by (simp add: set_pad_def remove_pad_def example_square_def example_padded_def example_metadata_def
      pad_array_def as_pairs_def array_order_def pad_pixels_def pad_plane_def plane_width_def
      slice_axis_def slice_pixels_def slice_plane_def slice_list_def reset_offset_def)

text \<open>
  Two more pad widths of the same claim: a single pair is applied to both axes by
  \<open>np.pad\<close> but removed from the x axis only, and after \<open>(1, 0)\<close> the array comes back
  while the offset of the x axis stays shifted, because \<open>sum_up\<close> is overwritten.
\<close>

lemma remove_pad_single_pair:
  "\<exists>p q. set_pad example_square (Some (PadPairs [[1, 1]])) = Inr p \<and> remove_pad p = Inr q
         \<and> data p = RealPixels [[[0, 0, 0, 0], [0, 1, 2, 0], [0, 3, 4, 0], [0, 0, 0, 0]]]
         \<and> data q = RealPixels [[[0, 0], [1, 2], [3, 4], [0, 0]]]"
  by (simp add: set_pad_def remove_pad_def example_square_def example_metadata_def
      pad_array_def as_pairs_def array_order_def pad_pixels_def pad_plane_def plane_width_def
      slice_axis_def slice_pixels_def slice_plane_def slice_list_def reset_offset_def
      positive_index_def)

lemma remove_pad_offset_not_reset:
  "\<exists>p q. set_pad example_square (Some (PadFlat [PadInt 1, PadInt 0])) = Inr p \<and> remove_pad p = Inr q
         \<and> data p = RealPixels [[[0, 1, 2, 0], [0, 3, 4, 0]]]
         \<and> data q = data example_square \<and> offset (axis_x q) = 1 \<and> offset (axis_x example_square) = 0"
  by (simp add: set_pad_def remove_pad_def example_square_def example_metadata_def
      pad_array_def as_pairs_def array_order_def pad_pixels_def pad_plane_def plane_width_def
      slice_axis_def slice_pixels_def slice_plane_def slice_list_def reset_offset_def
      positive_index_def)

text \<open>A pad width with both sides nonzero on both axes is removed again.\<close>

lemma remove_pad_two_sided_example:
  "\<exists>p. set_pad example_square (Some (PadPairs [[2, 3], [1, 4]])) = Inr p
       \<and> remove_pad p = Inr example_square"
  by (simp add: set_pad_def remove_pad_def example_square_def example_metadata_def
      pad_array_def as_pairs_def array_order_def pad_pixels_def pad_plane_def plane_width_def
      slice_axis_def slice_pixels_def slice_plane_def slice_list_def reset_offset_def
      positive_index_def)

text \<open>
  In general: on an image whose data fits its axes and that carries no pad record, a pad
  width with both sides positive on both axes is removed again, array, axes and metadata.
\<close>

lemma slice_pad_row:
  assumes "length row = w"
  shows "slice_list (Some (b, b + w)) (replicate b c @ row @ replicate a c) = row"
  using assms by (simp add: slice_list_def)

lemma slice_pad_plane:
  assumes "length plane = h" "list_all (\<lambda>r. length r = w) plane"
  shows "slice_plane (Some (xb, xb + w)) (Some (yb, yb + h)) (pad_plane c ((yb, ya), (xb, xa)) plane)
           = plane"
proof -
  have rows: "slice_list (Some (yb, yb + h)) (pad_plane c ((yb, ya), (xb, xa)) plane)
                = map (\<lambda>row. replicate xb c @ row @ replicate xa c) plane"
    using assms(1) by (simp add: slice_list_def pad_plane_def Let_def)
  have "map (slice_list (Some (xb, xb + w))) (map (\<lambda>row. replicate xb c @ row @ replicate xa c) plane)
          = plane"
    using assms(2) by (induction plane) (simp_all add: slice_pad_row)
  then show ?thesis by (simp add: slice_plane_def rows)
qed

lemma slice_pad_pixels:
  assumes "well_formed img"
  shows "slice_pixels (Some (xb, xb + axsize (axis_x img))) (Some (yb, yb + axsize (axis_y img)))
           (pad_pixels ((yb, ya), (xb, xa)) (data img)) = data img"
proof (cases "data img")
  case (RealPixels planes)
  have "map (slice_plane (Some (xb, xb + axsize (axis_x img))) (Some (yb, yb + axsize (axis_y img)))
             \<circ> pad_plane 0 ((yb, ya), (xb, xa))) planes = planes"
    using assms RealPixels
    by (intro map_idI) (auto simp: well_formed_def list_all_iff intro!: slice_pad_plane)
  then show ?thesis using RealPixels by (simp add: slice_pixels_def pad_pixels_def)
next
  case (ComplexPixels planes)
  have "map (slice_plane (Some (xb, xb + axsize (axis_x img))) (Some (yb, yb + axsize (axis_y img)))
             \<circ> pad_plane 0 ((yb, ya), (xb, xa))) planes = planes"
    using assms ComplexPixels
    by (intro map_idI) (auto simp: well_formed_def list_all_iff intro!: slice_pad_plane)
  then show ?thesis using ComplexPixels by (simp add: slice_pixels_def pad_pixels_def)
qed

lemma remove_pad_set_pad_two_sided:
  assumes wf: "well_formed img" and md: "pad_width (metadata img) = None"
      and pos: "0 < xb" "0 < xa" "0 < yb" "0 < ya"
  shows "\<exists>p. set_pad img (Some (PadPairs [[xb, xa], [yb, ya]])) = Inr p
           \<and> data p = pad_pixels ((nat yb, nat ya), (nat xb, nat xa)) (data img)
           \<and> remove_pad p = Inr img"
proof -
  let ?w = "axsize (axis_x img)" and ?h = "axsize (axis_y img)"
  let ?p = "img \<lparr> data := pad_pixels ((nat yb, nat ya), (nat xb, nat xa)) (data img),
                  axis_x := (axis_x img) \<lparr> axsize := nat xb + ?w + nat xa \<rparr>,
                  axis_y := (axis_y img) \<lparr> axsize := nat yb + ?h + nat ya \<rparr>,
                  metadata := (metadata img) \<lparr> pad_width := Some [[xb, xa], [yb, ya]] \<rparr> \<rparr>"
  have sp: "set_pad img (Some (PadPairs [[xb, xa], [yb, ya]])) = Inr ?p"
    using pos by (simp add: set_pad_def pad_array_def array_order_def as_pairs_def)
  have ix: "positive_index (axis_x ?p) xb = Inr (nat xb)"
    "positive_index (axis_x ?p) (- xa) = Inr (nat xb + ?w)"
    "positive_index (axis_y ?p) yb = Inr (nat yb)"
    "positive_index (axis_y ?p) (- ya) = Inr (nat yb + ?h)"
    using pos by (simp_all add: positive_index_def nat_add_distrib nat_diff_distrib)
  have loop: "remove_pad_loop (zip [[xb, xa], [yb, ya]] [axis_x ?p, axis_y ?p]) [] []
      = Inr ([real (nat xb) * scale (axis_x img), real (nat yb) * scale (axis_y img)],
             [Some (nat xb, nat xb + ?w), Some (nat yb, nat yb + ?h)])"
    using pos ix by simp
  have sx: "slice_axis (Some (nat xb, nat xb + ?w)) (axis_x ?p)
              = Inr ((axis_x img) \<lparr> offset := offset (axis_x img) + scale (axis_x img) * real (nat xb) \<rparr>)"
    using pos by (simp add: slice_axis_def slice_list_def)
  have sy: "slice_axis (Some (nat yb, nat yb + ?h)) (axis_y ?p)
              = Inr ((axis_y img) \<lparr> offset := offset (axis_y img) + scale (axis_y img) * real (nat yb) \<rparr>)"
    using pos by (simp add: slice_axis_def slice_list_def)
  have rp: "remove_pad ?p = Inr img"
    using loop sx sy slice_pad_pixels [OF wf, of "nat xb" "nat yb" "nat ya" "nat xa"] md
    by (simp add: remove_pad_def reset_offset_def)
  show ?thesis using sp rp by simp
qed

section \<open>Properties of the digitization\<close>

lemma np_min_Min: "xs \<noteq> [] \<Longrightarrow> np_min xs = Inr (Min (set xs))"
proof (cases xs)
  case Nil
  then show "xs \<noteq> [] \<Longrightarrow> ?thesis" by simp
next
  case (Cons a rest)
  then show ?thesis using Min.set_eq_fold [of a rest] by (simp add: np_min_def)
qed

lemma np_max_Max: "xs \<noteq> [] \<Longrightarrow> np_max xs = Inr (Max (set xs))"
proof (cases xs)
  case Nil
  then show "xs \<noteq> [] \<Longrightarrow> ?thesis" by simp
next
  case (Cons a rest)
  then show ?thesis using Max.set_eq_fold [of a rest] by (simp add: np_max_def)
qed

lemma filter_less_upt: "filter (\<lambda>i. i < m) [0..<L] = [0..<min L m]"
proof (induction L)
  case 0
  then show ?case by simp
next
  case (Suc L)
  show ?case
  proof (cases "L < m")
    case True
    then show ?thesis using Suc by (simp add: min_def)
  next
    case False
    then have "min (Suc L) m = m" "min L m = m" by simp_all
    then show ?thesis using Suc False by simp
  qed
qed

lemma edge_le_iff:
  fixes b x lo :: real
  assumes "0 < b" "lo \<le> x"
  shows "lo + real i * b \<le> x \<longleftrightarrow> i < nat (\<lfloor>(x - lo) / b\<rfloor> + 1)"
proof -
  have "lo + real i * b \<le> x \<longleftrightarrow> real i \<le> (x - lo) / b"
    using assms(1) by (simp add: pos_le_divide_eq algebra_simps)
  also have "\<dots> \<longleftrightarrow> int i \<le> \<lfloor>(x - lo) / b\<rfloor>"
    by (simp add: le_floor_iff)
  also have "\<dots> \<longleftrightarrow> i < nat (\<lfloor>(x - lo) / b\<rfloor> + 1)"
    by linarith
  finally show ?thesis .
qed

lemma count_edges:
  assumes "0 < b" "lo \<le> x"
  shows "length (filter (\<lambda>e. e \<le> x) (map (\<lambda>i. lo + real i * b) [0..<L]))
           = min L (nat (\<lfloor>(x - lo) / b\<rfloor> + 1))"
proof -
  have "filter (\<lambda>e. e \<le> x) (map (\<lambda>i. lo + real i * b) [0..<L])
          = map (\<lambda>i. lo + real i * b) (filter (\<lambda>i. i < nat (\<lfloor>(x - lo) / b\<rfloor> + 1)) [0..<L])"
    using edge_le_iff [OF assms] by (simp add: filter_map o_def)
  then show ?thesis by (simp add: filter_less_upt)
qed

lemma sorted_edges:
  assumes "0 < b"
  shows "sorted (map (\<lambda>i. lo + real i * b) [0..<L])"
  using assms by (auto simp: sorted_iff_nth_mono)

lemma strict_edges:
  assumes "0 < b"
  shows "sorted_wrt (<) (map (\<lambda>i. lo + real i * b) [0..<L])"
  using assms by (auto simp: sorted_wrt_iff_nth_less)

lemma edges_enough:
  fixes b x hi lo :: real
  assumes "0 < b" "x \<le> hi" "lo \<le> x"
  shows "nat (\<lfloor>(x - lo) / b\<rfloor> + 1) < nat \<lceil>(hi + 1.1 * b - lo) / b\<rceil>"
proof -
  have eq: "(hi + 1.1 * b - lo) / b = (hi - lo) / b + 1.1"
    using assms(1) by (simp add: field_simps)
  have "(x - lo) / b \<le> (hi - lo) / b"
    using assms by (simp add: divide_right_mono)
  then have "of_int (\<lfloor>(x - lo) / b\<rfloor> + 1) < (hi - lo) / b + 1.1"
    by (simp; linarith)
  then have lt: "\<lfloor>(x - lo) / b\<rfloor> + 1 < \<lceil>(hi + 1.1 * b - lo) / b\<rceil>"
    unfolding eq by (simp add: less_ceiling_iff)
  have "0 \<le> \<lfloor>(x - lo) / b\<rfloor>"
    using assms(1,3) by simp
  with lt show ?thesis by linarith
qed

lemma map_result_map:
  assumes "\<And>x. x \<in> set xs \<Longrightarrow> f x = Inr (g x)"
  shows "map_result f xs = Inr (map g xs)"
  using assms by (induction xs) simp_all

lemma mesh_bins_edges:
  assumes "b \<noteq> 0" "ravel mesh \<noteq> []"
  shows "mesh_bins mesh b = Inr (edges (Min (set (ravel mesh))) (Max (set (ravel mesh))) b)"
  using assms by (simp add: mesh_bins_def np_min_Min np_max_Max np_arange_def edges_def)

lemma floor_index:
  fixes b x lo :: real
  assumes "0 < b" "lo \<le> x"
  shows "nat (\<lfloor>(x - lo) / b\<rfloor> + 1) = Suc (nat \<lfloor>(x - lo) / b\<rfloor>)"
proof -
  have "0 \<le> \<lfloor>(x - lo) / b\<rfloor>" using assms by simp
  then show ?thesis by linarith
qed

lemma edges_nth:
  "k < length (edges lo hi b) \<Longrightarrow> edges lo hi b ! k = lo + real k * b"
  by (simp add: edges_def)

lemma edges_strict: "0 < b \<Longrightarrow> sorted_wrt (<) (edges lo hi b)"
  unfolding edges_def by (rule strict_edges)

lemma edges_sorted: "0 < b \<Longrightarrow> sorted (edges lo hi b)"
  unfolding edges_def by (rule sorted_edges)

lemma sample_in_bin:
  fixes b x lo hi :: real
  assumes "0 < b" "lo \<le> x" "x \<le> hi"
  shows "in_bin (edges lo hi b) (nat \<lfloor>(x - lo) / b\<rfloor>) x"
    and "edges lo hi b ! Suc (nat \<lfloor>(x - lo) / b\<rfloor>) = upper_edge lo b x"
proof -
  let ?k = "nat \<lfloor>(x - lo) / b\<rfloor>"
  have nn: "0 \<le> \<lfloor>(x - lo) / b\<rfloor>" using assms by simp
  have len: "Suc ?k < length (edges lo hi b)"
    using edges_enough [OF assms(1,3,2)] floor_index [OF assms(1,2)] by (simp add: edges_def)
  have rk: "real ?k = of_int \<lfloor>(x - lo) / b\<rfloor>" using nn by simp
  have lower: "lo + real ?k * b \<le> x"
  proof -
    have "of_int \<lfloor>(x - lo) / b\<rfloor> * b \<le> (x - lo) / b * b"
      by (rule mult_right_mono) (use assms(1) in simp_all)
    then show ?thesis using assms(1) by (simp add: rk)
  qed
  have upper: "x < lo + real (Suc ?k) * b"
  proof -
    have "(x - lo) / b < of_int \<lfloor>(x - lo) / b\<rfloor> + 1" by linarith
    then have "(x - lo) / b * b < (of_int \<lfloor>(x - lo) / b\<rfloor> + 1) * b"
      using assms(1) by (rule mult_strict_right_mono)
    moreover have "(x - lo) / b * b = x - lo" using assms(1) by simp
    ultimately have "x - lo < (of_int \<lfloor>(x - lo) / b\<rfloor> + 1) * b" by simp
    then show ?thesis using rk by (simp add: algebra_simps)
  qed
  show "in_bin (edges lo hi b) ?k x"
    using len lower upper by (simp add: in_bin_def edges_nth)
  show "edges lo hi b ! Suc ?k = upper_edge lo b x"
    using len rk by (simp add: edges_nth upper_edge_def algebra_simps)
qed

lemma bin_label_edges:
  fixes b x lo hi :: real
  assumes "0 < b" "lo \<le> x" "x \<le> hi"
  shows "bin_label (edges lo hi b) x = Inr (upper_edge lo b x)"
proof -
  let ?m = "nat (\<lfloor>(x - lo) / b\<rfloor> + 1)"
  have lt: "?m < length (edges lo hi b)"
    using edges_enough [OF assms(1,3,2)] by (simp add: edges_def)
  have "np_digitize x (edges lo hi b) = Inr ?m"
    using edges_sorted [OF assms(1), of lo hi] count_edges [OF assms(1,2)] lt
    by (simp add: np_digitize_def edges_def)
  then show ?thesis
    using lt sample_in_bin(2) [OF assms] floor_index [OF assms(1,2)]
    by (simp add: bin_label_def take_bin_def)
qed

lemma in_bin_unique:
  assumes "sorted_wrt (<) bins" "in_bin bins k x" "in_bin bins k' x"
  shows "k = k'"
proof (rule ccontr)
  assume ne: "k \<noteq> k'"
  have less: "\<And>i j. i < j \<Longrightarrow> j < length bins \<Longrightarrow> bins ! i < bins ! j"
    using assms(1) by (simp add: sorted_wrt_iff_nth_less)
  have mono: "\<And>i j. i \<le> j \<Longrightarrow> j < length bins \<Longrightarrow> bins ! i \<le> bins ! j"
    using less by (metis le_neq_implies_less less_le order_refl)
  show False
  proof (cases "k < k'")
    case True
    then have "bins ! Suc k \<le> bins ! k'" using mono [of "Suc k" k'] assms(3) by (simp add: in_bin_def)
    then show False using assms(2,3) by (simp add: in_bin_def)
  next
    case False
    then have "k' < k" using ne by simp
    then have "bins ! Suc k' \<le> bins ! k" using mono [of "Suc k'" k] assms(2) by (simp add: in_bin_def)
    then show False using assms(2,3) by (simp add: in_bin_def)
  qed
qed

lemma digitize_mesh_upper_edge:
  assumes "0 < b" "ravel mesh \<noteq> []"
  shows "digitize_mesh mesh b = Inr (map (map (upper_edge (Min (set (ravel mesh))) b)) mesh)"
proof -
  let ?lo = "Min (set (ravel mesh))" and ?hi = "Max (set (ravel mesh))"
  have inner: "\<And>row. row \<in> set mesh \<Longrightarrow>
      map_result (bin_label (edges ?lo ?hi b)) row = Inr (map (upper_edge ?lo b) row)"
  proof (rule map_result_map)
    fix row x assume "row \<in> set mesh" "x \<in> set row"
    then have "x \<in> set (ravel mesh)" by (auto simp: ravel_def)
    then have "?lo \<le> x" "x \<le> ?hi" by simp_all
    then show "bin_label (edges ?lo ?hi b) x = Inr (upper_edge ?lo b x)"
      using bin_label_edges [OF assms(1)] by simp
  qed
  have "map_result (map_result (bin_label (edges ?lo ?hi b))) mesh
          = Inr (map (map (upper_edge ?lo b)) mesh)"
    by (rule map_result_map) (rule inner)
  then show ?thesis
    using assms mesh_bins_edges [of b mesh] by (simp add: digitize_mesh_def)
qed

lemma get_digitized_eq:
  assumes "get_real_space img shifted shifts = Inr (xx, yy)"
      and "resolved_bin_size kind img (coordinate_mesh kind xx yy) bs = Inr b"
  shows "get_digitized kind img bs shifted shifts = digitize_mesh (coordinate_mesh kind xx yy) b"
  using assms
  by (cases kind)
     (simp_all add: get_digitized_def get_digitized_radius_def get_digitized_angle_def
        resolved_bin_size_def coordinate_mesh_def Let_def)

lemma ravel_coordinate_mesh:
  assumes "xx \<noteq> []" "yy \<noteq> []"
  shows "ravel (coordinate_mesh kind xx yy) \<noteq> []"
  using assms
  by (cases kind; cases xx; cases yy)
     (simp_all add: ravel_def coordinate_mesh_def radius_mesh_def angle_mesh_def)

lemma in_bin_edges_label:
  fixes b lo hi x :: real
  assumes "0 < b" "in_bin (edges lo hi b) k x"
  shows "upper_edge lo b x = edges lo hi b ! Suc k"
proof -
  have len: "Suc k < length (edges lo hi b)" "k < length (edges lo hi b)"
    using assms(2) by (simp_all add: in_bin_def)
  have k: "Suc k < length (edges lo hi b)" "lo + real k * b \<le> x" "x < lo + real (Suc k) * b"
    using assms(2) edges_nth [OF len(1)] edges_nth [OF len(2)] by (simp_all add: in_bin_def)
  have "real k \<le> (x - lo) / b" using k(2) assms(1) by (simp add: pos_le_divide_eq algebra_simps)
  moreover have "(x - lo) / b < real k + 1"
    using k(3) assms(1) by (simp add: pos_divide_less_eq algebra_simps)
  ultimately have "\<lfloor>(x - lo) / b\<rfloor> = int k" by linarith
  then show ?thesis using k(1) by (simp add: upper_edge_def edges_nth algebra_simps)
qed

lemma edges_length_bound:
  fixes b lo hi :: real
  assumes "0 < b" "lo \<le> hi"
  shows "length (edges lo hi b) \<le> nat \<lfloor>(hi - lo) / b\<rfloor> + 3"
proof -
  have eq: "(hi + 1.1 * b - lo) / b = (hi - lo) / b + 1.1"
    using assms(1) by (simp add: field_simps)
  have "\<lceil>(hi - lo) / b + 1.1\<rceil> \<le> \<lfloor>(hi - lo) / b\<rfloor> + 3"
    by (simp add: ceiling_le_iff; linarith)
  moreover have "0 \<le> \<lfloor>(hi - lo) / b\<rfloor>" using assms by simp
  ultimately show ?thesis unfolding edges_def eq by simp linarith
qed

lemma length_map_map: "map length (map (map f) m) = map length m"
  by (simp add: comp_def)

lemma mesh_bins_spacing:
  assumes "mesh_bins mesh b = Inr bins" "Suc k < length bins"
  shows "bins ! Suc k - bins ! k = b"
proof -
  have ne: "ravel mesh \<noteq> []" using assms(1)
    by (auto simp: mesh_bins_def np_min_def split: list.splits)
  have b: "b \<noteq> 0" using assms(1) ne
    by (auto simp: mesh_bins_def np_min_Min np_max_Max np_arange_def split: if_splits)
  have "bins = edges (Min (set (ravel mesh))) (Max (set (ravel mesh))) b"
    using assms(1) mesh_bins_edges [OF b ne] by simp
  then show ?thesis using assms(2) by (simp add: edges_def algebra_simps)
qed

lemma wide_space: "get_real_space example_wide False None = Inr ([0, 39 / 20], [0])"
  by (simp add: get_real_space_def example_wide_def axis_values_def upt_rec)

lemma wide_bins: "mesh_bins [[0, 39 / 20]] 1 = Inr [0, 1, 2, 3]"
  by (simp add: mesh_bins_def ravel_def np_min_def np_max_def np_arange_def upt_rec)

lemma wide_digitized: "get_digitized_radius example_wide (FloatBin 1) False None = Inr [[1, 2]]"
  by (simp add: get_digitized_radius_def get_real_space_def example_wide_def axis_values_def
      radius_mesh_def radius_bin_size_def digitize_mesh_def mesh_bins_def ravel_def np_min_def
      np_max_def np_arange_def bin_label_def np_digitize_def take_bin_def upt_rec)

lemma offset_space: "get_real_space example_offset False None = Inr ([1, 2], [0])"
  by (simp add: get_real_space_def example_offset_def axis_values_def upt_rec)

lemma labels_tied:
  fixes b :: real
  assumes "0 < b" "ravel mesh \<noteq> []"
  shows "list_all2 (list_all2 (\<lambda>x l.
            (\<exists>!k. in_bin (edges (Min (set (ravel mesh))) (Max (set (ravel mesh))) b) k x)
            \<and> (\<forall>k. in_bin (edges (Min (set (ravel mesh))) (Max (set (ravel mesh))) b) k x
                   \<longrightarrow> l = edges (Min (set (ravel mesh))) (Max (set (ravel mesh))) b ! Suc k)))
           mesh (map (map (upper_edge (Min (set (ravel mesh))) b)) mesh)"
proof -
  let ?lo = "Min (set (ravel mesh))" and ?hi = "Max (set (ravel mesh))"
  have "\<forall>row \<in> set mesh. \<forall>x \<in> set row.
          (\<exists>!k. in_bin (edges ?lo ?hi b) k x)
          \<and> (\<forall>k. in_bin (edges ?lo ?hi b) k x \<longrightarrow> upper_edge ?lo b x = edges ?lo ?hi b ! Suc k)"
  proof (intro ballI conjI)
    fix row x assume "row \<in> set mesh" "x \<in> set row"
    then have "x \<in> set (ravel mesh)" by (auto simp: ravel_def)
    then have "?lo \<le> x" "x \<le> ?hi" by simp_all
    then have "in_bin (edges ?lo ?hi b) (nat \<lfloor>(x - ?lo) / b\<rfloor>) x"
      using sample_in_bin(1) [OF assms(1)] by blast
    then show "\<exists>!k. in_bin (edges ?lo ?hi b) k x"
      using in_bin_unique [OF edges_strict [OF assms(1)]] by blast
    show "\<forall>k. in_bin (edges ?lo ?hi b) k x \<longrightarrow> upper_edge ?lo b x = edges ?lo ?hi b ! Suc k"
      using in_bin_edges_label [OF assms(1)] by blast
  qed
  then show ?thesis by (simp add: list_all2_map2 list_all2_same)
qed

lemma edges_start:
  fixes b lo hi :: real
  assumes "0 < b" "lo \<le> hi"
  shows "2 \<le> length (edges lo hi b)" "edges lo hi b ! 0 = lo"
proof -
  have "in_bin (edges lo hi b) (nat \<lfloor>(lo - lo) / b\<rfloor>) lo"
    using sample_in_bin(1) [OF assms(1) order_refl assms(2)] .
  then have len: "Suc 0 < length (edges lo hi b)" by (simp add: in_bin_def)
  then show "2 \<le> length (edges lo hi b)" by simp
  from len have "0 < length (edges lo hi b)" by (rule Suc_lessD)
  then show "edges lo hi b ! 0 = lo" using edges_nth [of 0 lo hi b] by simp
qed

lemma int_bin_resolved:
  assumes "n \<noteq> 0" "ravel (coordinate_mesh kind xx yy) \<noteq> []"
  shows "resolved_bin_size kind img (coordinate_mesh kind xx yy) (IntBin n)
           = Inr (case kind of
                    Radial \<Rightarrow> Max (set (ravel (coordinate_mesh kind xx yy))) / real_of_int n
                  | Angular \<Rightarrow> 2 * pi / real_of_int n)"
  using assms
  by (cases kind)
     (simp_all add: resolved_bin_size_def radius_bin_size_def angle_bin_size_def np_max_Max)

lemma float_bin_resolved: "resolved_bin_size kind img mesh (FloatBin w) = Inr w"
  by (cases kind) (simp_all add: resolved_bin_size_def radius_bin_size_def angle_bin_size_def)

lemma offset_digitized:
  "get_digitized Radial example_offset (IntBin 2) False None = Inr [[2, 3]]"
  by (simp add: get_digitized_def get_digitized_radius_def get_real_space_def example_offset_def
      axis_values_def radius_mesh_def radius_bin_size_def digitize_mesh_def mesh_bins_def
      ravel_def np_min_def np_max_def np_arange_def bin_label_def np_digitize_def take_bin_def
      upt_rec)

lemma offset_bins: "mesh_bins (coordinate_mesh Radial [1, 2] [0]) 1 = Inr [1, 2, 3]"
  by (simp add: coordinate_mesh_def radius_mesh_def mesh_bins_def ravel_def np_min_def
      np_max_def np_arange_def upt_rec)

lemma centred_space: "get_real_space example_centred False None = Inr ([- 1, 1], [0])"
  by (simp add: get_real_space_def example_centred_def axis_values_def upt_rec)

lemma centred_angles: "coordinate_mesh Angular [- 1, 1] [0] = [[pi, 0]]"
  by (simp add: coordinate_mesh_def angle_mesh_def np_arctan2_def)

lemma centred_digitized:
  "get_digitized Angular example_centred (IntBin 2) False None = Inr [[2 * pi, pi]]"
proof -
  have res: "resolved_bin_size Angular example_centred (coordinate_mesh Angular [- 1, 1] [0]) (IntBin 2)
               = Inr pi"
    by (simp add: resolved_bin_size_def angle_bin_size_def)
  have ne: "ravel [[pi, 0::real]] \<noteq> []" by (simp add: ravel_def)
  have lo: "Min (set (ravel [[pi, 0::real]])) = 0"
    using pi_gt_zero by (simp add: ravel_def min_def not_le)
  have "digitize_mesh [[pi, 0]] pi = Inr (map (map (upper_edge 0 pi)) [[pi, 0]])"
    using digitize_mesh_upper_edge [OF pi_gt_zero ne] lo by simp
  then show ?thesis
    using get_digitized_eq [OF centred_space res] centred_angles
    by (simp add: upper_edge_def)
qed

lemma unique_labels:
  fixes b :: real
  assumes "0 < b" "ravel mesh \<noteq> []"
  shows "set (np_unique (ravel (map (map (upper_edge (Min (set (ravel mesh))) b)) mesh)))
           = (\<lambda>k. edges (Min (set (ravel mesh))) (Max (set (ravel mesh))) b ! Suc k)
               ` {k. \<exists>x \<in> set (ravel mesh).
                        in_bin (edges (Min (set (ravel mesh))) (Max (set (ravel mesh))) b) k x}"
proof -
  let ?lo = "Min (set (ravel mesh))" and ?hi = "Max (set (ravel mesh))"
  have rav: "ravel (map (map (upper_edge ?lo b)) mesh) = map (upper_edge ?lo b) (ravel mesh)"
    by (rule ravel_map_map)
  have inb: "\<And>x. x \<in> set (ravel mesh) \<Longrightarrow> in_bin (edges ?lo ?hi b) (nat \<lfloor>(x - ?lo) / b\<rfloor>) x"
  proof -
    fix x assume "x \<in> set (ravel mesh)"
    then have "?lo \<le> x" "x \<le> ?hi" by simp_all
    then show "in_bin (edges ?lo ?hi b) (nat \<lfloor>(x - ?lo) / b\<rfloor>) x"
      using sample_in_bin(1) [OF assms(1)] by blast
  qed
  have lab: "\<And>x k. in_bin (edges ?lo ?hi b) k x \<Longrightarrow> upper_edge ?lo b x = edges ?lo ?hi b ! Suc k"
    using in_bin_edges_label [OF assms(1)] by blast
  show ?thesis
    unfolding np_unique_set rav
  proof (intro set_eqI iffI)
    fix l assume "l \<in> set (map (upper_edge ?lo b) (ravel mesh))"
    then obtain x where x: "x \<in> set (ravel mesh)" "l = upper_edge ?lo b x" by auto
    then show "l \<in> (\<lambda>k. edges ?lo ?hi b ! Suc k)
                     ` {k. \<exists>x \<in> set (ravel mesh). in_bin (edges ?lo ?hi b) k x}"
      using inb [OF x(1)] lab [OF inb [OF x(1)]] by blast
  next
    fix l assume "l \<in> (\<lambda>k. edges ?lo ?hi b ! Suc k)
                     ` {k. \<exists>x \<in> set (ravel mesh). in_bin (edges ?lo ?hi b) k x}"
    then obtain k x where "x \<in> set (ravel mesh)" "in_bin (edges ?lo ?hi b) k x"
      "l = edges ?lo ?hi b ! Suc k" by auto
    then show "l \<in> set (map (upper_edge ?lo b) (ravel mesh))"
      using lab by force
  qed
qed

lemma wide_unique: "np_unique (ravel [[1, 2::real]]) = [1, 2]"
  by (simp add: np_unique_def ravel_def)

section \<open>Claims about the digitization\<close>

text \<open>
  C2, as stated: each sample is replaced by the left edge of its bin. On the image
  \<open>example_wide\<close> (two pixels \<open>1.95\<close> apart, not shifted) with the float bin size \<open>1\<close> the
  radii are \<open>0\<close> and \<open>1.95\<close> and the edges \<open>0, 1, 2, 3\<close>: the sample \<open>0\<close> of the bin from
  \<open>0\<close> to \<open>1\<close> gets the label \<open>1\<close>, and \<open>1.95\<close> gets \<open>2\<close>.
\<close>

theorem digitized_label_left_edge_counterexample:
  "get_real_space example_wide False None = Inr ([0, 39 / 20], [0])
   \<and> radius_mesh [0, 39 / 20] [0] = [[0, 39 / 20]]
   \<and> mesh_bins [[0, 39 / 20]] 1 = Inr [0, 1, 2, 3]
   \<and> get_digitized_radius example_wide (FloatBin 1) False None = Inr [[1, 2]]
   \<and> in_bin [0, 1, 2, 3] 0 0 \<and> in_bin [0, 1, 2, 3] 1 (39 / 20)
   \<and> get_digitized_radius example_wide (FloatBin 1) False None \<noteq> Inr [[0, 1]]"
  using wide_space wide_bins wide_digitized by (simp add: radius_mesh_def in_bin_def)

text \<open>
  C2, amended: when the coordinates exist and the bin width is positive, both
  digitizations return, each sample lies in a bin between two neighbouring edges, and it
  is replaced by the right (upper) edge of that bin, a function of the bin alone; so two
  samples of one bin get the same label.
\<close>

theorem digitized_label_right_edge:
  assumes "get_real_space img shifted shifts = Inr (xx, yy)" "xx \<noteq> []" "yy \<noteq> []"
      and "resolved_bin_size kind img (coordinate_mesh kind xx yy) bs = Inr b" "0 < b"
  shows "\<exists>bins lo. mesh_bins (coordinate_mesh kind xx yy) b = Inr bins
           \<and> np_min (ravel (coordinate_mesh kind xx yy)) = Inr lo
           \<and> get_digitized kind img bs shifted shifts
               = Inr (map (map (upper_edge lo b)) (coordinate_mesh kind xx yy))
           \<and> (\<forall>x \<in> set (ravel (coordinate_mesh kind xx yy)). \<exists>k. in_bin bins k x)
           \<and> (\<forall>x k. in_bin bins k x \<longrightarrow> upper_edge lo b x = bins ! Suc k)"
proof -
  let ?mesh = "coordinate_mesh kind xx yy"
  let ?lo = "Min (set (ravel ?mesh))" and ?hi = "Max (set (ravel ?mesh))"
  have ne: "ravel ?mesh \<noteq> []" using assms(2,3) by (rule ravel_coordinate_mesh)
  have bins: "mesh_bins ?mesh b = Inr (edges ?lo ?hi b)"
    using assms(5) ne by (simp add: mesh_bins_edges)
  have dig: "get_digitized kind img bs shifted shifts = Inr (map (map (upper_edge ?lo b)) ?mesh)"
    using get_digitized_eq [OF assms(1,4)] digitize_mesh_upper_edge [OF assms(5) ne] by simp
  have each: "\<forall>x \<in> set (ravel ?mesh). \<exists>k. in_bin (edges ?lo ?hi b) k x"
  proof
    fix x assume "x \<in> set (ravel ?mesh)"
    then have "?lo \<le> x" "x \<le> ?hi" by simp_all
    then show "\<exists>k. in_bin (edges ?lo ?hi b) k x"
      using sample_in_bin(1) [OF assms(5)] by blast
  qed
  have lab: "\<forall>x k. in_bin (edges ?lo ?hi b) k x \<longrightarrow> upper_edge ?lo b x = edges ?lo ?hi b ! Suc k"
    using in_bin_edges_label [OF assms(5)] by blast
  have mn: "np_min (ravel ?mesh) = Inr ?lo" using ne by (rule np_min_Min)
  show ?thesis using bins mn dig each lab by blast
qed

theorem digitized_label_right_edge_witness:
  "get_real_space example_wide False None = Inr ([0, 39 / 20], [0])
   \<and> resolved_bin_size Radial example_wide (coordinate_mesh Radial [0, 39 / 20] [0]) (FloatBin 1) = Inr 1
   \<and> (\<exists>bins lo. mesh_bins (coordinate_mesh Radial [0, 39 / 20] [0]) 1 = Inr bins
           \<and> np_min (ravel (coordinate_mesh Radial [0, 39 / 20] [0])) = Inr lo
           \<and> get_digitized Radial example_wide (FloatBin 1) False None
               = Inr (map (map (upper_edge lo 1)) (coordinate_mesh Radial [0, 39 / 20] [0]))
           \<and> (\<forall>x \<in> set (ravel (coordinate_mesh Radial [0, 39 / 20] [0])). \<exists>k. in_bin bins k x)
           \<and> (\<forall>x k. in_bin bins k x \<longrightarrow> upper_edge lo 1 x = bins ! Suc k))"
proof -
  have h1: "get_real_space example_wide False None = Inr ([0, 39 / 20], [0])" by (rule wide_space)
  have h2: "[0, 39 / 20] \<noteq> ([]::real list)" by simp
  have h3: "[0] \<noteq> ([]::real list)" by simp
  have h4: "resolved_bin_size Radial example_wide (coordinate_mesh Radial [0, 39 / 20] [0]) (FloatBin 1) = Inr 1"
    by (simp add: resolved_bin_size_def radius_bin_size_def)
  have h5: "(0::real) < 1" by simp
  show ?thesis using h1 h4 digitized_label_right_edge [OF h1 h2 h3 h4 h5] by blast
qed

text \<open>
  C4, as stated: an integer \<open>bin_size\<close> of \<open>n\<close> gives the width \<open>(max - min) / n\<close>. On
  \<open>example_offset\<close> (x coordinates \<open>1\<close> and \<open>2\<close>, not shifted) with \<open>n = 1\<close> the radii are
  \<open>1\<close> and \<open>2\<close> and the radial width is \<open>2\<close>, not \<open>1\<close>; the angles are both \<open>0\<close> and the
  angular width is \<open>2 * pi\<close>, not \<open>0\<close>.
\<close>

theorem int_bin_width_counterexample:
  "get_real_space example_offset False None = Inr ([1, 2], [0])
   \<and> radius_mesh [1, 2] [0] = [[1, 2]]
   \<and> np_max (ravel [[1, 2]]) = Inr 2 \<and> np_min (ravel [[1, 2]]) = Inr 1
   \<and> radius_bin_size example_offset [[1, 2]] (IntBin 1) = Inr 2
   \<and> radius_bin_size example_offset [[1, 2]] (IntBin 1) \<noteq> Inr ((2 - 1) / real_of_int 1)
   \<and> get_digitized_radius example_offset (IntBin 1) False None = Inr [[3, 3]]
   \<and> angle_mesh [1, 2] [0] = [[0, 0]]
   \<and> angle_bin_size example_offset (IntBin 1) = Inr (2 * pi)"
  using offset_space
  by (simp add: get_digitized_radius_def
      radius_mesh_def radius_bin_size_def digitize_mesh_def mesh_bins_def ravel_def np_min_def
      np_max_def np_arange_def bin_label_def np_digitize_def take_bin_def upt_rec
      angle_mesh_def angle_bin_size_def np_arctan2_def)

text \<open>
  C4, amended: on coordinates that exist, with a nonzero integer \<open>bin_size\<close> of \<open>n\<close> both
  digitizations run with the width \<open>w\<close> that is \<open>max(mesh) / n\<close> for the radius and
  \<open>2 * pi / n\<close> for the angle: they return what the shared last lines return with \<open>w\<close>,
  which is also what they return for the float \<open>bin_size\<close> of \<open>w\<close>. When \<open>w\<close> is positive
  the bins they look the labels up in start at \<open>min(mesh)\<close>, neighbouring edges are \<open>w\<close>
  apart, and every sample gets the upper edge of a bin of that width that holds it.
\<close>

theorem int_bin_width:
  assumes "get_real_space img shifted shifts = Inr (xx, yy)" "xx \<noteq> []" "yy \<noteq> []" "n \<noteq> 0"
  shows "\<exists>lo hi w.
           np_min (ravel (coordinate_mesh kind xx yy)) = Inr lo
         \<and> np_max (ravel (coordinate_mesh kind xx yy)) = Inr hi
         \<and> w = (case kind of Radial \<Rightarrow> hi / real_of_int n | Angular \<Rightarrow> 2 * pi / real_of_int n)
         \<and> get_digitized kind img (IntBin n) shifted shifts
             = digitize_mesh (coordinate_mesh kind xx yy) w
         \<and> get_digitized kind img (IntBin n) shifted shifts
             = get_digitized kind img (FloatBin w) shifted shifts
         \<and> (0 < w \<longrightarrow>
              (\<exists>bins labels.
                   mesh_bins (coordinate_mesh kind xx yy) w = Inr bins
                 \<and> get_digitized kind img (IntBin n) shifted shifts = Inr labels
                 \<and> 2 \<le> length bins \<and> bins ! 0 = lo
                 \<and> (\<forall>k. Suc k < length bins \<longrightarrow> bins ! Suc k - bins ! k = w)
                 \<and> list_all2 (list_all2 (\<lambda>x l. \<exists>k. in_bin bins k x \<and> l = bins ! Suc k))
                     (coordinate_mesh kind xx yy) labels))"
proof -
  let ?mesh = "coordinate_mesh kind xx yy"
  let ?lo = "Min (set (ravel ?mesh))" and ?hi = "Max (set (ravel ?mesh))"
  let ?w = "case kind of Radial \<Rightarrow> ?hi / real_of_int n | Angular \<Rightarrow> 2 * pi / real_of_int n"
  have ne: "ravel ?mesh \<noteq> []" using assms(2,3) by (rule ravel_coordinate_mesh)
  have mn: "np_min (ravel ?mesh) = Inr ?lo" using ne by (rule np_min_Min)
  have mx: "np_max (ravel ?mesh) = Inr ?hi" using ne by (rule np_max_Max)
  have res: "resolved_bin_size kind img ?mesh (IntBin n) = Inr ?w"
    using assms(4) ne by (rule int_bin_resolved)
  have dig: "get_digitized kind img (IntBin n) shifted shifts = digitize_mesh ?mesh ?w"
    using assms(1) res by (rule get_digitized_eq)
  have flt: "get_digitized kind img (FloatBin ?w) shifted shifts = digitize_mesh ?mesh ?w"
    using assms(1) float_bin_resolved by (rule get_digitized_eq)
  have pos: "0 < ?w \<longrightarrow>
              (\<exists>bins labels.
                   mesh_bins ?mesh ?w = Inr bins
                 \<and> get_digitized kind img (IntBin n) shifted shifts = Inr labels
                 \<and> 2 \<le> length bins \<and> bins ! 0 = ?lo
                 \<and> (\<forall>k. Suc k < length bins \<longrightarrow> bins ! Suc k - bins ! k = ?w)
                 \<and> list_all2 (list_all2 (\<lambda>x l. \<exists>k. in_bin bins k x \<and> l = bins ! Suc k))
                     ?mesh labels)"
  proof
    assume w: "0 < ?w"
    let ?bins = "edges ?lo ?hi ?w"
    let ?labels = "map (map (upper_edge ?lo ?w)) ?mesh"
    have lohi: "?lo \<le> ?hi" using ne by simp
    have bins: "mesh_bins ?mesh ?w = Inr ?bins" using w ne by (simp add: mesh_bins_edges)
    have lab: "get_digitized kind img (IntBin n) shifted shifts = Inr ?labels"
      using dig digitize_mesh_upper_edge [OF w ne] by simp
    have sp: "\<forall>k. Suc k < length ?bins \<longrightarrow> ?bins ! Suc k - ?bins ! k = ?w"
      using mesh_bins_spacing [OF bins] by blast
    have tied: "list_all2 (list_all2 (\<lambda>x l. \<exists>k. in_bin ?bins k x \<and> l = ?bins ! Suc k)) ?mesh ?labels"
      using labels_tied [OF w ne]
      by (rule list_all2_mono) (erule list_all2_mono, blast)
    show "\<exists>bins labels.
                   mesh_bins ?mesh ?w = Inr bins
                 \<and> get_digitized kind img (IntBin n) shifted shifts = Inr labels
                 \<and> 2 \<le> length bins \<and> bins ! 0 = ?lo
                 \<and> (\<forall>k. Suc k < length bins \<longrightarrow> bins ! Suc k - bins ! k = ?w)
                 \<and> list_all2 (list_all2 (\<lambda>x l. \<exists>k. in_bin bins k x \<and> l = bins ! Suc k))
                     ?mesh labels"
      using bins lab edges_start [OF w lohi] sp tied by blast
  qed
  show ?thesis using mn mx dig flt pos by (intro exI conjI) (rule refl | assumption | simp)+
qed

theorem int_bin_width_witness:
  "get_real_space example_offset False None = Inr ([1, 2], [0])
   \<and> get_digitized Radial example_offset (IntBin 2) False None = Inr [[2, 3]]
   \<and> mesh_bins (coordinate_mesh Radial [1, 2] [0]) 1 = Inr [1, 2, 3]
   \<and> (\<exists>lo hi w.
           np_min (ravel (coordinate_mesh Radial [1, 2] [0])) = Inr lo
         \<and> np_max (ravel (coordinate_mesh Radial [1, 2] [0])) = Inr hi
         \<and> w = (case Radial of Radial \<Rightarrow> hi / real_of_int 2 | Angular \<Rightarrow> 2 * pi / real_of_int 2)
         \<and> get_digitized Radial example_offset (IntBin 2) False None
             = digitize_mesh (coordinate_mesh Radial [1, 2] [0]) w
         \<and> get_digitized Radial example_offset (IntBin 2) False None
             = get_digitized Radial example_offset (FloatBin w) False None
         \<and> (0 < w \<longrightarrow>
              (\<exists>bins labels.
                   mesh_bins (coordinate_mesh Radial [1, 2] [0]) w = Inr bins
                 \<and> get_digitized Radial example_offset (IntBin 2) False None = Inr labels
                 \<and> 2 \<le> length bins \<and> bins ! 0 = lo
                 \<and> (\<forall>k. Suc k < length bins \<longrightarrow> bins ! Suc k - bins ! k = w)
                 \<and> list_all2 (list_all2 (\<lambda>x l. \<exists>k. in_bin bins k x \<and> l = bins ! Suc k))
                     (coordinate_mesh Radial [1, 2] [0]) labels)))
   \<and> get_real_space example_centred False None = Inr ([- 1, 1], [0])
   \<and> coordinate_mesh Angular [- 1, 1] [0] = [[pi, 0]]
   \<and> get_digitized Angular example_centred (IntBin 2) False None = Inr [[2 * pi, pi]]
   \<and> (\<exists>lo hi w.
           np_min (ravel (coordinate_mesh Angular [- 1, 1] [0])) = Inr lo
         \<and> np_max (ravel (coordinate_mesh Angular [- 1, 1] [0])) = Inr hi
         \<and> w = (case Angular of Radial \<Rightarrow> hi / real_of_int 2 | Angular \<Rightarrow> 2 * pi / real_of_int 2)
         \<and> get_digitized Angular example_centred (IntBin 2) False None
             = digitize_mesh (coordinate_mesh Angular [- 1, 1] [0]) w
         \<and> get_digitized Angular example_centred (IntBin 2) False None
             = get_digitized Angular example_centred (FloatBin w) False None
         \<and> (0 < w \<longrightarrow>
              (\<exists>bins labels.
                   mesh_bins (coordinate_mesh Angular [- 1, 1] [0]) w = Inr bins
                 \<and> get_digitized Angular example_centred (IntBin 2) False None = Inr labels
                 \<and> 2 \<le> length bins \<and> bins ! 0 = lo
                 \<and> (\<forall>k. Suc k < length bins \<longrightarrow> bins ! Suc k - bins ! k = w)
                 \<and> list_all2 (list_all2 (\<lambda>x l. \<exists>k. in_bin bins k x \<and> l = bins ! Suc k))
                     (coordinate_mesh Angular [- 1, 1] [0]) labels)))"
proof -
  have x1: "[1, 2] \<noteq> ([]::real list)" and x2: "[- 1, 1] \<noteq> ([]::real list)"
    and y: "[0] \<noteq> ([]::real list)" and n: "(2::int) \<noteq> 0"
    by simp_all
  show ?thesis
    using offset_space offset_digitized offset_bins centred_space centred_angles centred_digitized
      int_bin_width [OF offset_space x1 y n, of Radial]
      int_bin_width [OF centred_space x2 y n, of Angular]
    by (intro conjI) assumption+
qed

text \<open>
  C8, as stated: any bin size, and the maximum in the last bin. With the float bin size
  \<open>-1\<close> on \<open>example_wide\<close> there is no edge and the lookup fails with IndexError; with
  the bin size \<open>1\<close> the edges are \<open>0, 1, 2, 3\<close> and the maximum \<open>1.95\<close> gets the label \<open>2\<close>: it
  lies in the bin from \<open>1\<close> to \<open>2\<close>, and the last bin from \<open>2\<close> to \<open>3\<close> is empty.
\<close>

theorem digitized_binning_counterexample:
  "get_digitized_radius example_wide (FloatBin (- 1)) False None = Inl IndexError
   \<and> radius_mesh [0, 39 / 20] [0] = [[0, 39 / 20]]
   \<and> mesh_bins [[0, 39 / 20]] 1 = Inr [0, 1, 2, 3]
   \<and> bin_label [0, 1, 2, 3] (39 / 20) = Inr 2
   \<and> in_bin [0, 1, 2, 3] 1 (39 / 20) \<and> \<not> in_bin [0, 1, 2, 3] 2 (39 / 20)"
  using wide_bins
  by (simp add: get_digitized_radius_def get_real_space_def example_wide_def axis_values_def
      radius_mesh_def radius_bin_size_def digitize_mesh_def mesh_bins_def ravel_def np_min_def
      np_max_def np_arange_def bin_label_def np_digitize_def take_bin_def upt_rec in_bin_def)

text \<open>
  C8, amended: when the coordinates exist and the bin width is positive, both
  digitizations return a label for every sample; the edges are strictly ascending, each
  sample lies in exactly one bin and its label is the upper edge of that bin; the maximum
  lies in a bin within range, the last one or the one before it; and the labels that
  \<open>np.unique\<close> groups by are a non-empty, ascending list without repetition, namely the
  upper edges of the bins that hold a sample.
\<close>

theorem digitized_binning_complete:
  assumes "get_real_space img shifted shifts = Inr (xx, yy)" "xx \<noteq> []" "yy \<noteq> []"
      and "resolved_bin_size kind img (coordinate_mesh kind xx yy) bs = Inr b" "0 < b"
  shows "\<exists>bins labels hi. mesh_bins (coordinate_mesh kind xx yy) b = Inr bins
           \<and> sorted_wrt (<) bins
           \<and> get_digitized kind img bs shifted shifts = Inr labels
           \<and> map length labels = map length (coordinate_mesh kind xx yy)
           \<and> (\<forall>x \<in> set (ravel (coordinate_mesh kind xx yy)). \<exists>!k. in_bin bins k x)
           \<and> list_all2 (list_all2 (\<lambda>x l. (\<exists>!k. in_bin bins k x)
                                            \<and> (\<forall>k. in_bin bins k x \<longrightarrow> l = bins ! Suc k)))
               (coordinate_mesh kind xx yy) labels
           \<and> np_max (ravel (coordinate_mesh kind xx yy)) = Inr hi
           \<and> (\<exists>k. in_bin bins k hi \<and> length bins \<le> k + 3)
           \<and> np_unique (ravel labels) \<noteq> []
           \<and> sorted (np_unique (ravel labels))
           \<and> distinct (np_unique (ravel labels))
           \<and> set (np_unique (ravel labels))
               = (\<lambda>k. bins ! Suc k)
                   ` {k. \<exists>x \<in> set (ravel (coordinate_mesh kind xx yy)). in_bin bins k x}"
proof -
  let ?mesh = "coordinate_mesh kind xx yy"
  let ?lo = "Min (set (ravel ?mesh))" and ?hi = "Max (set (ravel ?mesh))"
  let ?labels = "map (map (upper_edge ?lo b)) ?mesh"
  have ne: "ravel ?mesh \<noteq> []" using assms(2,3) by (rule ravel_coordinate_mesh)
  have bins: "mesh_bins ?mesh b = Inr (edges ?lo ?hi b)"
    using assms(5) ne by (simp add: mesh_bins_edges)
  have strict: "sorted_wrt (<) (edges ?lo ?hi b)" using assms(5) by (rule edges_strict)
  have dig: "get_digitized kind img bs shifted shifts = Inr ?labels"
    using get_digitized_eq [OF assms(1,4)] digitize_mesh_upper_edge [OF assms(5) ne] by simp
  have shape: "map length ?labels = map length ?mesh" by (rule length_map_map)
  have each: "\<forall>x \<in> set (ravel ?mesh). \<exists>!k. in_bin (edges ?lo ?hi b) k x"
  proof
    fix x assume "x \<in> set (ravel ?mesh)"
    then have "?lo \<le> x" "x \<le> ?hi" by simp_all
    then have "in_bin (edges ?lo ?hi b) (nat \<lfloor>(x - ?lo) / b\<rfloor>) x"
      using sample_in_bin(1) [OF assms(5)] by blast
    then show "\<exists>!k. in_bin (edges ?lo ?hi b) k x"
      using in_bin_unique [OF edges_strict [OF assms(5)]] by blast
  qed
  have tied: "list_all2 (list_all2 (\<lambda>x l. (\<exists>!k. in_bin (edges ?lo ?hi b) k x)
                 \<and> (\<forall>k. in_bin (edges ?lo ?hi b) k x \<longrightarrow> l = edges ?lo ?hi b ! Suc k)))
               ?mesh ?labels"
    using assms(5) ne by (rule labels_tied)
  have lohi: "?lo \<le> ?hi" using ne by simp
  have top: "in_bin (edges ?lo ?hi b) (nat \<lfloor>(?hi - ?lo) / b\<rfloor>) ?hi"
    using sample_in_bin(1) [OF assms(5) lohi] by simp
  have near: "length (edges ?lo ?hi b) \<le> nat \<lfloor>(?hi - ?lo) / b\<rfloor> + 3"
    using edges_length_bound [OF assms(5) lohi] .
  have mx: "np_max (ravel ?mesh) = Inr ?hi" using ne by (rule np_max_Max)
  have "ravel ?labels = map (upper_edge ?lo b) (ravel ?mesh)" by (rule ravel_map_map)
  then have "ravel ?labels \<noteq> []" using ne by simp
  then have lne: "np_unique (ravel ?labels) \<noteq> []"
    using np_unique_set [of "ravel ?labels"] by (metis set_empty)
  have grouped: "set (np_unique (ravel ?labels))
      = (\<lambda>k. edges ?lo ?hi b ! Suc k) ` {k. \<exists>x \<in> set (ravel ?mesh). in_bin (edges ?lo ?hi b) k x}"
    using assms(5) ne by (rule unique_labels)
  have topk: "\<exists>k. in_bin (edges ?lo ?hi b) k ?hi \<and> length (edges ?lo ?hi b) \<le> k + 3"
    using top near by blast
  show ?thesis
    apply (rule exI [of _ "edges ?lo ?hi b"])
    apply (rule exI [of _ ?labels])
    apply (rule exI [of _ ?hi])
    apply (intro conjI)
    apply (rule bins)
    apply (rule strict)
    apply (rule dig)
    apply (rule shape)
    apply (rule each)
    apply (rule tied)
    apply (rule mx)
    apply (rule topk)
    apply (rule lne)
    apply (rule np_unique_sorted)
    apply (rule np_unique_distinct)
    apply (rule grouped)
    done
qed

theorem digitized_binning_complete_witness:
  "get_real_space example_wide False None = Inr ([0, 39 / 20], [0])
   \<and> resolved_bin_size Radial example_wide (coordinate_mesh Radial [0, 39 / 20] [0]) (FloatBin 1) = Inr 1
   \<and> coordinate_mesh Radial [0, 39 / 20] [0] = [[0, 39 / 20]]
   \<and> mesh_bins [[0, 39 / 20]] 1 = Inr [0, 1, 2, 3]
   \<and> get_digitized Radial example_wide (FloatBin 1) False None = Inr [[1, 2]]
   \<and> np_unique (ravel [[1, 2::real]]) = [1, 2]
   \<and> in_bin [0, 1, 2, 3] 0 0 \<and> in_bin [0, 1, 2, 3] 1 (39 / 20)
   \<and> (\<exists>bins labels hi. mesh_bins (coordinate_mesh Radial [0, 39 / 20] [0]) 1 = Inr bins
           \<and> sorted_wrt (<) bins
           \<and> get_digitized Radial example_wide (FloatBin 1) False None = Inr labels
           \<and> map length labels = map length (coordinate_mesh Radial [0, 39 / 20] [0])
           \<and> (\<forall>x \<in> set (ravel (coordinate_mesh Radial [0, 39 / 20] [0])). \<exists>!k. in_bin bins k x)
           \<and> list_all2 (list_all2 (\<lambda>x l. (\<exists>!k. in_bin bins k x)
                                            \<and> (\<forall>k. in_bin bins k x \<longrightarrow> l = bins ! Suc k)))
               (coordinate_mesh Radial [0, 39 / 20] [0]) labels
           \<and> np_max (ravel (coordinate_mesh Radial [0, 39 / 20] [0])) = Inr hi
           \<and> (\<exists>k. in_bin bins k hi \<and> length bins \<le> k + 3)
           \<and> np_unique (ravel labels) \<noteq> []
           \<and> sorted (np_unique (ravel labels))
           \<and> distinct (np_unique (ravel labels))
           \<and> set (np_unique (ravel labels))
               = (\<lambda>k. bins ! Suc k)
                   ` {k. \<exists>x \<in> set (ravel (coordinate_mesh Radial [0, 39 / 20] [0])). in_bin bins k x})"
proof -
  have h1: "get_real_space example_wide False None = Inr ([0, 39 / 20], [0])" by (rule wide_space)
  have h2: "[0, 39 / 20] \<noteq> ([]::real list)" by simp
  have h3: "[0] \<noteq> ([]::real list)" by simp
  have h4: "resolved_bin_size Radial example_wide (coordinate_mesh Radial [0, 39 / 20] [0]) (FloatBin 1) = Inr 1"
    by (simp add: resolved_bin_size_def radius_bin_size_def)
  have h5: "(0::real) < 1" by simp
  have m: "coordinate_mesh Radial [0, 39 / 20] [0] = [[0, 39 / 20]]"
    by (simp add: coordinate_mesh_def radius_mesh_def)
  have d: "get_digitized Radial example_wide (FloatBin 1) False None = Inr [[1, 2]]"
    using wide_digitized by (simp add: get_digitized_def)
  have b0: "in_bin [0, 1, 2, 3] 0 0" and b1: "in_bin [0, 1, 2, 3] 1 (39 / 20)"
    by (simp_all add: in_bin_def)
  show ?thesis
    using h1 h4 m wide_bins d wide_unique b0 b1
      digitized_binning_complete [OF h1 h2 h3 h4 h5]
    by (intro conjI) assumption+
qed

section \<open>Properties of the contrast transfer function\<close>

lemma square_fourier:
  "get_fourier_space example_square ''both''
     = Inr (Both [[0, pi ^ 2], [pi ^ 2, 2 * pi ^ 2]] [0, - pi] [0, - pi])"
  by (simp add: get_fourier_space_def example_square_def k_vector_def np_ifftshift_def upt_rec
      power2_eq_square)

lemma fourier_both_k2:
  assumes "get_fourier_space img s = Inr (Both k2 kx ky)"
  shows "k2 = map (\<lambda>y. map (\<lambda>x. x ^ 2 + y ^ 2) kx) ky"
  using assms by (auto simp: get_fourier_space_def Let_def split: if_splits)

lemma ctf_value_nan: "ctf_value None d ap = 0"
  by (simp add: ctf_value_def nan_to_num_def)

lemma chi_plain_nan: "wnum ^ 2 - k < 0 \<Longrightarrow> chi_plain wnum k = None"
  by (simp add: chi_plain_def np_sqrt_def)

lemma chi_astigmatic_nan: "wnum ^ 2 - k < 0 \<Longrightarrow> chi_astigmatic wnum ang x y k = None"
  by (simp add: chi_astigmatic_def np_sqrt_def Let_def split: option.splits)

lemma square_wnum: "(2 * pi / 4 * 1) ^ 2 - pi ^ 2 < (0::real)"
proof -
  have "(2 * pi / 4 * 1) ^ 2 - pi ^ 2 = - (3 / 4) * pi ^ 2"
    by (simp add: power2_eq_square field_simps)
  then show ?thesis by simp
qed

lemma length_ctf_stack: "length (ctf_stack wnum k2 aperture defoci) = length defoci"
  by (simp add: ctf_stack_def)

lemma ctf_stack_entry:
  assumes "d < length defoci" "j < length k2" "i < length (k2 ! j)" "wnum ^ 2 - k2 ! j ! i < 0"
  shows "length (ctf_stack wnum k2 (map (map ap) k2) defoci ! d) = length k2
         \<and> length (ctf_stack wnum k2 (map (map ap) k2) defoci ! d ! j) = length (k2 ! j)
         \<and> ctf_stack wnum k2 (map (map ap) k2) defoci ! d ! j ! i = 0"
  using assms by (simp add: ctf_stack_def chi_plain_nan ctf_value_nan)

lemma squeeze_stack_zero:
  assumes "j < length k2" "i < length (k2 ! j)" "wnum ^ 2 - k2 ! j ! i < 0"
  shows "zero_at (squeeze_stack (ctf_stack wnum k2 (map (map ap) k2) defoci)) k2 j i"
proof (cases "length defoci = 1")
  case True
  then have "0 < length defoci" by simp
  from ctf_stack_entry [OF this assms] True show ?thesis
    by (simp add: zero_at_def squeeze_stack_def length_ctf_stack)
next
  case False
  then show ?thesis
    using ctf_stack_entry [OF _ assms, of _ defoci ap]
    by (simp add: zero_at_def squeeze_stack_def length_ctf_stack)
qed

lemma length_ctf_astigmatic_stack:
  "length (ctf_astigmatic_stack wnum kx ky k2 aperture angs defoci) = length defoci"
  by (simp add: ctf_astigmatic_stack_def)

lemma length_ctf_astigmatic_stack_nth:
  "d < length defoci \<Longrightarrow>
     length (ctf_astigmatic_stack wnum kx ky k2 aperture angs defoci ! d) = length angs"
  by (simp add: ctf_astigmatic_stack_def)

lemma ctf_astigmatic_stack_entry:
  assumes "k2 = map (\<lambda>y. map (\<lambda>x. x ^ 2 + y ^ 2) kx) ky"
      and "d < length defoci" "a < length angs" "j < length k2" "i < length (k2 ! j)"
      and "wnum ^ 2 - k2 ! j ! i < 0"
  shows "length (ctf_astigmatic_stack wnum kx ky k2 (map (map ap) k2) angs defoci ! d ! a) = length k2
         \<and> length (ctf_astigmatic_stack wnum kx ky k2 (map (map ap) k2) angs defoci ! d ! a ! j)
             = length (k2 ! j)
         \<and> ctf_astigmatic_stack wnum kx ky k2 (map (map ap) k2) angs defoci ! d ! a ! j ! i = 0"
proof -
  have jy: "j < length ky" using assms(1,4) by simp
  have ix: "i < length kx" using assms(1,4,5) by simp
  have ly: "length k2 = length ky" using assms(1) by simp
  have lx: "length (k2 ! j) = length kx" using assms(1) jy by simp
  show ?thesis
    using assms(2-6) jy ix ly lx
    by (simp add: ctf_astigmatic_stack_def chi_astigmatic_nan ctf_value_nan)
qed

lemma squeeze_astigmatic_stack_zero:
  assumes "k2 = map (\<lambda>y. map (\<lambda>x. x ^ 2 + y ^ 2) kx) ky"
      and "j < length k2" "i < length (k2 ! j)" "wnum ^ 2 - k2 ! j ! i < 0"
  shows "zero_at (squeeze_astigmatic_stack (length angs)
                    (ctf_astigmatic_stack wnum kx ky k2 (map (map ap) k2) angs defoci)) k2 j i"
proof -
  let ?arr = "ctf_astigmatic_stack wnum kx ky k2 (map (map ap) k2) angs defoci"
  have entry: "\<And>d a. d < length defoci \<Longrightarrow> a < length angs \<Longrightarrow>
      length (?arr ! d ! a) = length k2 \<and> length (?arr ! d ! a ! j) = length (k2 ! j)
      \<and> ?arr ! d ! a ! j ! i = 0"
    using ctf_astigmatic_stack_entry [OF assms(1) _ _ assms(2,3,4)] by blast
  show ?thesis
  proof (cases "length defoci = 1")
    case True
    then have d0: "0 < length defoci" by simp
    show ?thesis
    proof (cases "length angs = 1")
      case True
      then have "0 < length angs" by simp
      from entry [OF d0 this] True \<open>length defoci = 1\<close> show ?thesis
        by (simp add: zero_at_def squeeze_astigmatic_stack_def length_ctf_astigmatic_stack)
    next
      case False
      then show ?thesis
        using entry [OF d0] \<open>length defoci = 1\<close> length_ctf_astigmatic_stack_nth [OF d0]
        by (simp add: zero_at_def squeeze_astigmatic_stack_def length_ctf_astigmatic_stack)
    qed
  next
    case False
    show ?thesis
    proof (cases "length angs = 1")
      case True
      then have a0: "0 < length angs" by simp
      show ?thesis
        using entry [OF _ a0] True False
        by (simp add: zero_at_def squeeze_astigmatic_stack_def length_ctf_astigmatic_stack)
    next
      case na: False
      show ?thesis
        using entry False na length_ctf_astigmatic_stack_nth
        by (simp add: zero_at_def squeeze_astigmatic_stack_def length_ctf_astigmatic_stack)
    qed
  qed
qed


lemma get_contrast_transfer_result:
  assumes "get_contrast_transfer img defoci angles wlen nref NA fsmooth = Inr (out, Some res)"
      and "get_fourier_space img ''both'' = Inr (Both k2 kx ky)"
  shows "\<exists>ds angs ap.
           ctf res = (case angs of
                        None \<Rightarrow> squeeze_stack
                                  (ctf_stack (2 * pi / ctf_wave_length res * ctf_refractive_index res)
                                     k2 (map (map ap) k2) ds)
                      | Some a \<Rightarrow> squeeze_astigmatic_stack (length a)
                                  (ctf_astigmatic_stack
                                     (2 * pi / ctf_wave_length res * ctf_refractive_index res)
                                     kx ky k2 (map (map ap) k2) a ds))"
proof -
  obtain ds axc where ds:
    "(case defoci of None \<Rightarrow> (case nav_axis_values img 0 of None \<Rightarrow> None | Some d \<Rightarrow> Some (d, 1::nat))
      | Some d \<Rightarrow> Some (d, 0)) = Some (ds, axc)"
    using assms(1) by (cases "(case defoci of None \<Rightarrow> (case nav_axis_values img 0 of None \<Rightarrow> None | Some d \<Rightarrow> Some (d, 1::nat))
      | Some d \<Rightarrow> Some (d, 0))") (auto simp: get_contrast_transfer_def)
  let ?angs = "case angles of None \<Rightarrow> nav_axis_values img axc | Some a \<Rightarrow> Some a"
  let ?wl = "or_item wlen (wave_length (metadata img)) 1"
  let ?nr = "or_item nref (refractive_index (metadata img)) 1"
  let ?NA = "or_item NA (numerical_aperture (metadata img)) 1"
  let ?fs = "case fsmooth of Some f \<Rightarrow> Some f | None \<Rightarrow> f_smooth_aperture (metadata img)"
  define wn where "wn = 2 * pi / ?wl * ?nr"
  define apf where "apf = aperture_value ((?NA * (2 * pi / ?wl * ?nr) / ?nr) ^ 2) ?fs"
  define arr where "arr = (case ?angs of
              None \<Rightarrow> squeeze_stack (ctf_stack wn k2 (map (map apf) k2) ds)
            | Some a \<Rightarrow> squeeze_astigmatic_stack (length a)
                (ctf_astigmatic_stack wn kx ky k2 (map (map apf) k2) a ds))"
  have unfolded: "get_contrast_transfer img defoci angles wlen nref NA fsmooth =
      (if ?wl = 0 then Inl ZeroDivisionError
       else if ?nr = 0 then Inl ZeroDivisionError
       else case ctf_bookkeeping ds ?angs (axsize (axis_x img)) (axsize (axis_y img)) of
              Inl e \<Rightarrow> Inl e
            | Inr u \<Rightarrow> Inr ([], Some \<lparr> ctf = arr, ctf_wave_length = ?wl,
                                      ctf_refractive_index = ?nr, ctf_numerical_aperture = ?NA,
                                      ctf_f_smooth_aperture = ?fs \<rparr>))"
    by (simp only: get_contrast_transfer_def Let_def ds assms(2) option.case prod.case sum.case
        fourier_space.case wn_def apf_def arr_def)
  have "ctf res = arr \<and> ctf_wave_length res = ?wl \<and> ctf_refractive_index res = ?nr"
    using assms(1) unfolding unfolded by (auto split: if_splits sum.splits)
  then have "ctf res = (case ?angs of
              None \<Rightarrow> squeeze_stack
                (ctf_stack (2 * pi / ctf_wave_length res * ctf_refractive_index res)
                   k2 (map (map apf) k2) ds)
            | Some a \<Rightarrow> squeeze_astigmatic_stack (length a)
                (ctf_astigmatic_stack (2 * pi / ctf_wave_length res * ctf_refractive_index res)
                   kx ky k2 (map (map apf) k2) a ds))"
    by (simp only: arr_def wn_def)
  then show ?thesis by blast
qed

lemma ctf_bookkeeping_plain:
  assumes "ds \<noteq> []" "2 \<le> Nx" "2 \<le> Ny"
  shows "ctf_bookkeeping ds None Nx Ny = Inr ()"
  using assms
  by (cases ds; cases "tl ds")
     (auto simp: ctf_bookkeeping_def squeezed_dimensions_def has_two_def Let_def)

lemma ctf_bookkeeping_astigmatic:
  assumes "ds \<noteq> []" "2 \<le> length angs" "2 \<le> Nx" "2 \<le> Ny"
  shows "ctf_bookkeeping ds (Some angs) Nx Ny = Inr ()"
  using assms
  by (cases ds; cases "tl ds")
     (auto simp: ctf_bookkeeping_def squeezed_dimensions_def has_two_def Let_def)

lemma get_fourier_space_both:
  assumes "real (axsize (axis_y img)) * scale (axis_y img) \<noteq> 0"
      and "real (axsize (axis_x img)) * scale (axis_x img) \<noteq> 0"
  shows "\<exists>k2 kx ky. get_fourier_space img ''both'' = Inr (Both k2 kx ky)"
  using assms by (simp add: get_fourier_space_def Let_def)

lemma get_contrast_transfer_returns:
  assumes "ds \<noteq> []"
      and "case angles of None \<Rightarrow> navigation_axes img = [] | Some angs \<Rightarrow> 2 \<le> length angs"
      and "2 \<le> axsize (axis_x img)" and "2 \<le> axsize (axis_y img)"
      and "scale (axis_x img) \<noteq> 0" and "scale (axis_y img) \<noteq> 0"
      and "or_item wlen (wave_length (metadata img)) 1 \<noteq> 0"
      and "or_item nref (refractive_index (metadata img)) 1 \<noteq> 0"
  shows "\<exists>res. get_contrast_transfer img (Some ds) angles wlen nref NA fsmooth = Inr ([], Some res)"
proof -
  obtain k2 kx ky where fs: "get_fourier_space img ''both'' = Inr (Both k2 kx ky)"
    using get_fourier_space_both [of img] assms(3-6) by auto
  show ?thesis
  proof (cases angles)
    case None
    then have "nav_axis_values img 0 = None" using assms(2) by (simp add: nav_axis_values_def)
    then show ?thesis
      using None fs assms(7,8) ctf_bookkeeping_plain [OF assms(1,3,4)]
      by (simp add: get_contrast_transfer_def Let_def)
  next
    case (Some angs)
    then have "2 \<le> length angs" using assms(2) by simp
    then show ?thesis
      using Some fs assms(7,8) ctf_bookkeeping_astigmatic [OF assms(1) _ assms(3,4), of angs]
      by (simp add: get_contrast_transfer_def Let_def)
  qed
qed

lemma ctf_bookkeeping_one_angle:
  "ctf_bookkeeping [1, 2] (Some [1 / 2]) 2 2 = Inl IndexError"
  by (simp add: ctf_bookkeeping_def squeezed_dimensions_def has_two_def Let_def)

lemma ctf_bookkeeping_no_defocus:
  "ctf_bookkeeping [] None 2 2 = Inl IndexError"
  by (simp add: ctf_bookkeeping_def squeezed_dimensions_def has_two_def Let_def)

lemma square_ctf:
  "get_contrast_transfer example_square (Some [1, 2]) None (Some 4) None (Some 4) None
     = Inr ([], Some \<lparr> ctf = Stack [[[1, 0], [0, 0]], [[1, 0], [0, 0]]], ctf_wave_length = 4,
                        ctf_refractive_index = 1, ctf_numerical_aperture = 4,
                        ctf_f_smooth_aperture = None \<rparr>)"
proof -
  have chi0: "chi_plain (pi / 2) 0 = Some 0"
    by (simp add: chi_plain_def np_sqrt_def real_sqrt_divide power_divide)
  have chi1: "chi_plain (pi / 2) (pi ^ 2) = None"
    by (simp add: chi_plain_def np_sqrt_def power_divide)
  have chi2: "chi_plain (pi / 2) (2 * pi ^ 2) = None"
    by (simp add: chi_plain_def np_sqrt_def power_divide)
  have bk: "ctf_bookkeeping [1, 2] None 2 2 = Inr ()"
    by (simp add: ctf_bookkeeping_def squeezed_dimensions_def has_two_def Let_def)
  show ?thesis
    using square_fourier chi0 chi1 chi2 bk
    by (simp add: get_contrast_transfer_def nav_axis_values_def or_item_def example_square_def
        example_metadata_def Let_def ctf_value_def nan_to_num_def aperture_value_def
        power_mult_distrib ctf_stack_def squeeze_stack_def)
qed

lemma square_one_angle:
  "get_contrast_transfer example_square (Some [1, 2]) (Some [1 / 2]) (Some 4) None (Some 4) None
     = Inl IndexError"
  using square_fourier ctf_bookkeeping_one_angle
  by (simp add: get_contrast_transfer_def or_item_def example_square_def example_metadata_def
      Let_def)

lemma square_no_defocus:
  "get_contrast_transfer example_square (Some []) None (Some 4) None (Some 4) None
     = Inl IndexError"
  using square_fourier ctf_bookkeeping_no_defocus
  by (simp add: get_contrast_transfer_def nav_axis_values_def or_item_def example_square_def
      example_metadata_def Let_def)

section \<open>Claims about the contrast transfer function\<close>

text \<open>
  C3, as stated: the NaN is replaced before the exponential, so that inside the aperture
  the CTF is the aperture value where the radicand is negative. On \<open>example_square\<close> with
  the defoci \<open>1\<close> and \<open>2\<close>, the wave length \<open>4\<close> and the numerical aperture \<open>4\<close> the wave number
  is \<open>pi / 2\<close>, every frequency lies inside the aperture, and at the three frequencies
  with \<open>k2 \<ge> pi\<^sup>2\<close> the radicand is negative: there the aperture is \<open>1\<close> and the CTF is \<open>0\<close>.
\<close>

theorem ctf_aperture_value_counterexample:
  "get_contrast_transfer example_square (Some [1, 2]) None (Some 4) None (Some 4) None
     = Inr ([], Some \<lparr> ctf = Stack [[[1, 0], [0, 0]], [[1, 0], [0, 0]]], ctf_wave_length = 4,
                        ctf_refractive_index = 1, ctf_numerical_aperture = 4,
                        ctf_f_smooth_aperture = None \<rparr>)
   \<and> get_fourier_space example_square ''both''
       = Inr (Both [[0, pi ^ 2], [pi ^ 2, 2 * pi ^ 2]] [0, - pi] [0, - pi])
   \<and> aperture_value ((4 * (2 * pi / 4 * 1) / 1) ^ 2) None (pi ^ 2) = 1
   \<and> (2 * pi / 4 * 1) ^ 2 - pi ^ 2 < (0::real)"
proof -
  have ap: "aperture_value ((4 * (2 * pi / 4 * 1) / 1) ^ 2) None (pi ^ 2) = 1"
    by (simp add: aperture_value_def power_mult_distrib)
  show ?thesis using square_ctf square_fourier ap square_wnum by simp
qed

text \<open>
  C3, amended: whenever \<open>get_contrast_transfer\<close> returns a CTF, at every frequency where
  the radicand \<open>k0\<^sup>2 - k\<^sup>2\<close> is negative, \<open>k0\<close> being the wave number of the stored wave
  length and refractive index, the value is \<open>0\<close> for every defocus (and every angle in
  astigmatism mode), inside the aperture as well: the NaN goes through the exponential
  and the product with the aperture and is replaced by zero at the end. That it returns
  is a hypothesis: with no defocus value, or with several defoci and one angle, the
  lines after the array raise IndexError (\<open>square_no_defocus\<close>, \<open>square_one_angle\<close>);
  \<open>get_contrast_transfer_returns\<close> gives inputs on which it does return.
\<close>

theorem ctf_zero_where_radicand_negative:
  assumes "get_contrast_transfer img defoci angles wlen nref NA fsmooth = Inr (out, Some res)"
      and "get_fourier_space img ''both'' = Inr (Both k2 kx ky)"
      and "j < length k2" and "i < length (k2 ! j)"
      and "(2 * pi / ctf_wave_length res * ctf_refractive_index res) ^ 2 - k2 ! j ! i < 0"
  shows "zero_at (ctf res) k2 j i"
proof -
  have k2: "k2 = map (\<lambda>y. map (\<lambda>x. x ^ 2 + y ^ 2) kx) ky"
    using assms(2) by (rule fourier_both_k2)
  obtain ds angs ap where eq:
    "ctf res = (case angs of
                  None \<Rightarrow> squeeze_stack
                            (ctf_stack (2 * pi / ctf_wave_length res * ctf_refractive_index res)
                               k2 (map (map ap) k2) ds)
                | Some a \<Rightarrow> squeeze_astigmatic_stack (length a)
                            (ctf_astigmatic_stack
                               (2 * pi / ctf_wave_length res * ctf_refractive_index res)
                               kx ky k2 (map (map ap) k2) a ds))"
    using get_contrast_transfer_result [OF assms(1,2)] by blast
  show ?thesis
  proof (cases angs)
    case None
    then show ?thesis using eq squeeze_stack_zero [OF assms(3,4,5)] by simp
  next
    case (Some a)
    then show ?thesis using eq squeeze_astigmatic_stack_zero [OF k2 assms(3,4,5)] by simp
  qed
qed

theorem ctf_zero_where_radicand_negative_witness:
  "get_contrast_transfer example_square (Some [1, 2]) None (Some 4) None (Some 4) None
     = Inr ([], Some \<lparr> ctf = Stack [[[1, 0], [0, 0]], [[1, 0], [0, 0]]], ctf_wave_length = 4,
                        ctf_refractive_index = 1, ctf_numerical_aperture = 4,
                        ctf_f_smooth_aperture = None \<rparr>)
   \<and> get_fourier_space example_square ''both''
       = Inr (Both [[0, pi ^ 2], [pi ^ 2, 2 * pi ^ 2]] [0, - pi] [0, - pi])
   \<and> (2 * pi / 4 * 1) ^ 2 - [[0, pi ^ 2], [pi ^ 2, 2 * pi ^ 2]] ! 0 ! 1 < 0
   \<and> zero_at (Stack [[[1, 0], [0, 0]], [[1, 0], [0, 0]]])
        [[0, pi ^ 2], [pi ^ 2, 2 * pi ^ 2]] 0 1"
proof -
  have j: "0 < length [[0, pi ^ 2], [pi ^ 2, 2 * pi ^ 2]]" by simp
  have i: "1 < length ([[0, pi ^ 2], [pi ^ 2, 2 * pi ^ 2]] ! 0)" by simp
  have neg: "(2 * pi / ctf_wave_length \<lparr> ctf = Stack [[[1, 0], [0, 0]], [[1, 0], [0, 0]]],
                   ctf_wave_length = 4, ctf_refractive_index = 1, ctf_numerical_aperture = 4,
                   ctf_f_smooth_aperture = None \<rparr>
               * ctf_refractive_index \<lparr> ctf = Stack [[[1, 0], [0, 0]], [[1, 0], [0, 0]]],
                   ctf_wave_length = 4, ctf_refractive_index = 1, ctf_numerical_aperture = 4,
                   ctf_f_smooth_aperture = None \<rparr>) ^ 2
             - [[0, pi ^ 2], [pi ^ 2, 2 * pi ^ 2]] ! 0 ! 1 < 0"
    using square_wnum by simp
  show ?thesis
    using square_ctf square_fourier square_wnum
      ctf_zero_where_radicand_negative [OF square_ctf square_fourier j i neg]
    by simp
qed

text \<open>
  In astigmatism mode the second radicand \<open>k0\<^sup>2 - ka\<^sup>2\<close> is negative only where
  \<open>k0\<^sup>2 - k\<^sup>2\<close> is, since \<open>ka\<close> is a component of the frequency vector.
\<close>

lemma astigmatic_radicand:
  fixes x y a wnum :: real
  assumes "wnum ^ 2 - (x * cos a + y * sin a) * (x * cos a + y * sin a) < 0"
  shows "wnum ^ 2 - (x ^ 2 + y ^ 2) < 0"
proof -
  have gen: "\<And>c s::real. (x * c + y * s) ^ 2 + (x * s - y * c) ^ 2
          = (x ^ 2 + y ^ 2) * (s ^ 2 + c ^ 2)"
    by (simp add: power2_eq_square algebra_simps)
  have "(x * cos a + y * sin a) ^ 2 + (x * sin a - y * cos a) ^ 2 = x ^ 2 + y ^ 2"
    using gen [of "cos a" "sin a"] by simp
  moreover have "0 \<le> (x * sin a - y * cos a) ^ 2" by simp
  ultimately have "(x * cos a + y * sin a) ^ 2 \<le> x ^ 2 + y ^ 2" by linarith
  then show ?thesis using assms by (simp add: power2_eq_square)
qed

section \<open>Properties of the Fourier ring correlation\<close>

lemma zip_result_same:
  assumes "\<And>x. x \<in> set xs \<Longrightarrow> f x x = Inr (g x)"
  shows "zip_result f xs xs = Inr (map g xs)"
  using assms by (induction xs) simp_all

lemma zip_result_map:
  assumes "\<And>x. x \<in> set xs \<Longrightarrow> f x (g x) = Inr (h x)"
  shows "zip_result f xs (map g xs) = Inr (map h xs)"
  using assms by (induction xs) simp_all

lemma cross_correlation_self: "cross_correlation planes planes = Inr (auto_correlation planes)"
proof -
  have cell: "\<And>a::complex. Re (a * cnj a) = (cmod a) ^ 2"
    by (simp add: complex_mult_cnj cmod_power2)
  have row: "\<And>r. zip_result (\<lambda>a b. Inr (Re (a * cnj b))) r r = Inr (map (\<lambda>a. (cmod a) ^ 2) r)"
    by (rule zip_result_same) (simp only: cell)
  have plane: "\<And>p. zip_result (zip_result (\<lambda>a b. Inr (Re (a * cnj b)))) p p
                  = Inr (map (map (\<lambda>a. (cmod a) ^ 2)) p)"
    by (rule zip_result_same) (rule row)
  show ?thesis
    unfolding cross_correlation_def auto_correlation_def
    by (rule zip_result_same) (rule plane)
qed

lemma sum_list_filter_nonneg:
  fixes w :: "real list"
  assumes "\<forall>v \<in> set w. 0 \<le> v"
  shows "0 \<le> sum_list (map snd (filter P (zip ix w)))"
proof (rule sum_list_nonneg)
  fix v assume "v \<in> set (map snd (filter P (zip ix w)))"
  then have "v \<in> set w" by (auto dest: set_zip_rightD)
  then show "0 \<le> v" using assms by simp
qed

lemma np_bincount_nonneg:
  fixes w :: "real list"
  assumes "np_bincount ix w = Inr out" "\<forall>v \<in> set w. 0 \<le> v"
  shows "\<forall>v \<in> set out. 0 \<le> v"
  using assms sum_list_filter_nonneg [OF assms(2)]
  by (auto simp: np_bincount_def split: if_splits)

lemma map2_div_nonneg:
  fixes idata :: "real list"
  assumes "\<forall>v \<in> set idata. 0 \<le> v"
  shows "\<forall>v \<in> set (map2 (\<lambda>v c. v / real c) idata cts). 0 \<le> v"
  using assms by (auto dest: set_zip_leftD)

lemma integrate_binary_real_nonneg:
  assumes "integrate_binary_real sdata bin_mask normalise = Inr out"
      and "\<forall>v \<in> set (ravel sdata). 0 \<le> v"
  shows "\<forall>v \<in> set out. 0 \<le> v"
proof -
  obtain idata where i: "np_bincount (unique_inverse (ravel bin_mask)) (ravel sdata) = Inr idata"
    and o: "out = (if normalise then map2 (\<lambda>v c. v / real c) idata (unique_counts (ravel bin_mask)) else idata)"
    using assms(1) by (auto simp: integrate_binary_real_def Let_def split: sum.splits if_splits)
  have "\<forall>v \<in> set idata. 0 \<le> v" using np_bincount_nonneg [OF i assms(2)] .
  then show ?thesis using o map2_div_nonneg [of idata] by (cases normalise) simp_all
qed

lemma map_result_pred:
  assumes "map_result f xs = Inr ys" "\<And>x y. x \<in> set xs \<Longrightarrow> f x = Inr y \<Longrightarrow> P y"
  shows "\<forall>y \<in> set ys. P y"
  using assms
proof (induction xs arbitrary: ys)
  case Nil
  then show ?case by simp
next
  case (Cons a xs)
  from Cons.prems(1) obtain y rest where y: "f a = Inr y" and r: "map_result f xs = Inr rest"
    and ys: "ys = y # rest"
    by (auto split: sum.splits)
  have "P y" using Cons.prems(2) [of a y] y by simp
  moreover have "\<forall>z \<in> set rest. P z"
  proof (rule Cons.IH [OF r])
    fix x z assume "x \<in> set xs" "f x = Inr z"
    then show "P z" using Cons.prems(2) [of x z] by simp
  qed
  ultimately show ?case using ys by simp
qed

lemma auto_correlation_nonneg:
  "p \<in> set (auto_correlation planes) \<Longrightarrow> \<forall>v \<in> set (ravel p). 0 \<le> v"
  by (auto simp: auto_correlation_def ravel_def)

lemma integrate_radial_auto_nonneg:
  assumes "integrate_radial img bs shifted shifts normalise = Inr ac"
      and "data img = RealPixels (auto_correlation planes)"
  shows "\<exists>rows. integral ac = RealIntegrals rows \<and> (\<forall>row \<in> set rows. \<forall>v \<in> set row. 0 \<le> v)"
proof -
  obtain radius where ib: "integrate_binary img radius normalise = Inr ac"
    using assms(1) by (auto simp: integrate_radial_def split: sum.splits)
  obtain rows where rows:
    "map_result (\<lambda>sdata. integrate_binary_real sdata radius normalise) (auto_correlation planes) = Inr rows"
    and ac: "integral ac = RealIntegrals rows"
    using ib assms(2) by (auto simp: integrate_binary_def Let_def split: sum.splits)
  have "\<forall>row \<in> set rows. \<forall>v \<in> set row. 0 \<le> v"
  proof (rule map_result_pred [OF rows])
    fix p out assume "p \<in> set (auto_correlation planes)"
      and "integrate_binary_real p radius normalise = Inr out"
    then show "\<forall>v \<in> set out. 0 \<le> v"
      using integrate_binary_real_nonneg auto_correlation_nonneg by blast
  qed
  then show ?thesis using ac by blast
qed

lemma self_ratio:
  fixes s :: real
  assumes "0 \<le> s"
  shows "np_divide s (np_sqrt (s * s)) = (if s = 0 then None else Some 1)"
  using assms by (simp add: np_divide_def np_sqrt_def)

text \<open>
  When the radial integration returns: the coordinates exist, the bin width is positive
  and the data has the shape of the mesh.
\<close>

lemma integrate_binary_returns:
  assumes "same_shape (data img) bin_mask"
  shows "\<exists>res. integrate_binary img bin_mask normalise = Inr res"
proof (cases "data img")
  case (RealPixels planes)
  have "\<And>p. p \<in> set planes \<Longrightarrow>
          \<exists>y. integrate_binary_real p bin_mask normalise = Inr y \<and> True"
    using assms RealPixels integrate_binary_real_length
    by (fastforce simp: same_shape_def list_all_iff)
  from map_result_all [of planes "\<lambda>p. integrate_binary_real p bin_mask normalise" "\<lambda>y. True", OF this]
  show ?thesis using RealPixels by (auto simp: integrate_binary_def Let_def)
next
  case (ComplexPixels planes)
  have "\<And>p. p \<in> set planes \<Longrightarrow>
          \<exists>y. integrate_binary_comp p bin_mask normalise = Inr y \<and> True"
    using assms ComplexPixels integrate_binary_comp_length
    by (fastforce simp: same_shape_def list_all_iff)
  from map_result_all [of planes "\<lambda>p. integrate_binary_comp p bin_mask normalise" "\<lambda>y. True", OF this]
  show ?thesis using ComplexPixels by (auto simp: integrate_binary_def Let_def)
qed

lemma same_shape_map:
  "same_shape px m \<Longrightarrow> same_shape px (map (map f) m)"
  by (cases px) (simp_all add: same_shape_def comp_def)

lemma integrate_radial_returns:
  assumes "get_real_space img shifted shifts = Inr (xx, yy)" "xx \<noteq> []" "yy \<noteq> []"
      and "radius_bin_size img (radius_mesh xx yy) bs = Inr b" "0 < b"
      and "same_shape (data img) (radius_mesh xx yy)"
  shows "\<exists>res. integrate_radial img bs shifted shifts normalise = Inr res"
proof -
  have ne: "ravel (radius_mesh xx yy) \<noteq> []"
    using ravel_coordinate_mesh [OF assms(2,3), of Radial] by (simp add: coordinate_mesh_def)
  have "get_digitized_radius img bs shifted shifts
          = Inr (map (map (upper_edge (Min (set (ravel (radius_mesh xx yy)))) b)) (radius_mesh xx yy))"
    using assms(1,4) digitize_mesh_upper_edge [OF assms(5) ne]
    by (simp add: get_digitized_radius_def Let_def)
  then show ?thesis
    using integrate_binary_returns [OF same_shape_map [OF assms(6)]]
    by (simp add: integrate_radial_def)
qed

section \<open>Claims about the validation\<close>

text \<open>
  C5. The Fourier ring correlation of an image with itself: whenever the radial
  integration of its autocorrelation map returns, the correlation returns a curve with
  the same bins, and its value is \<open>1\<close> at every bin whose autocorrelation integral is not
  zero (a zero integral gives \<open>0 / 0\<close>, here \<open>None\<close>). The arithmetic is exact.
\<close>

theorem frc_self_is_one:
  assumes "data (fft x) = ComplexPixels planes"
      and "integrate_radial ((fft x) \<lparr> data := RealPixels (auto_correlation planes) \<rparr>) bs False None True
             = Inr ac"
  shows "run_fourier_ring_correlation fft x x bs
           = Inr (map (map (\<lambda>s. if s = 0 then None else Some 1)) (real_rows ac))"
proof -
  obtain rows where rows: "integral ac = RealIntegrals rows"
    and nn: "\<forall>row \<in> set rows. \<forall>v \<in> set row. 0 \<le> v"
    using integrate_radial_auto_nonneg [OF assms(2), of planes] by auto
  have rr: "real_rows ac = rows" using rows by (simp add: real_rows_def)
  have prod: "zip_result (zip_result (\<lambda>a b. Inr (a * b))) rows rows
                = Inr (map (map (\<lambda>s. s * s)) rows)"
    by (rule zip_result_same) (rule zip_result_same, simp)
  have quot: "zip_result (zip_result (\<lambda>x p. Inr (np_divide x (np_sqrt p)))) rows
                 (map (map (\<lambda>s. s * s)) rows)
                = Inr (map (map (\<lambda>s. if s = 0 then None else Some 1)) rows)"
  proof (rule zip_result_map)
    fix row assume row: "row \<in> set rows"
    show "zip_result (\<lambda>x p. Inr (np_divide x (np_sqrt p))) row (map (\<lambda>s. s * s) row)
            = Inr (map (\<lambda>s. if s = 0 then None else Some 1) row)"
    proof (rule zip_result_map)
      fix s assume "s \<in> set row"
      then have "0 \<le> s" using nn row by blast
      then show "Inr (np_divide s (np_sqrt (s * s))) = Inr (if s = 0 then None else Some 1)"
        by (simp add: self_ratio)
    qed
  qed
  show ?thesis
    using assms cross_correlation_self [of planes] rr prod quot
    by (simp add: run_fourier_ring_correlation_def Let_def)
qed

theorem frc_self_is_one_witness:
  "data (one_pixel_fft example_real) = ComplexPixels [[[5]]]
   \<and> integrate_radial ((one_pixel_fft example_real) \<lparr> data := RealPixels (auto_correlation [[[5]]]) \<rparr>)
         (FloatBin 1) False None True
       = Inr \<lparr> integral = RealIntegrals [[25]], bins_axis = [1], bins_offset = 0, bins_scale = 1 \<rparr>
   \<and> run_fourier_ring_correlation one_pixel_fft example_real example_real (FloatBin 1)
       = Inr [[Some 1]]"
proof -
  have h1: "data (one_pixel_fft example_real) = ComplexPixels [[[5]]]"
    by (simp add: one_pixel_fft_def example_real_def)
  have h2: "integrate_radial ((one_pixel_fft example_real) \<lparr> data := RealPixels (auto_correlation [[[5]]]) \<rparr>)
         (FloatBin 1) False None True
       = Inr \<lparr> integral = RealIntegrals [[25]], bins_axis = [1], bins_offset = 0, bins_scale = 1 \<rparr>"
    by (simp add: integrate_radial_def get_digitized_radius_def get_real_space_def one_pixel_fft_def
        example_real_def axis_values_def radius_mesh_def radius_bin_size_def digitize_mesh_def
        mesh_bins_def ravel_def np_min_def np_max_def np_arange_def bin_label_def np_digitize_def
        take_bin_def integrate_binary_def integrate_binary_real_def auto_correlation_def
        unique_inverse_def unique_counts_def np_unique_def index_of_def np_bincount_def
        bincount_len_def np_diff_def upt_rec)
  show ?thesis
    using h1 h2 frc_self_is_one [of one_pixel_fft example_real "[[[5]]]" "FloatBin 1", OF h1 h2]
    by (simp add: real_rows_def)
qed

end
